theory Spec2Isabelle
  imports Complex_Main "HOL-Library.Sublist"
begin

section \<open>Python values used by \<^verbatim>\<open>plot_training_metrics.py\<close>\<close>

text \<open>
  The script is one module: a literal dictionary \<^verbatim>\<open>data\<close>, a loop that draws three
  panels with matplotlib, a call that saves the figure, and a loop that prints a table.
  Exceptions are values of \<open>pyerror\<close>; an expression that may raise has type
  \<open>pyerror + 'a\<close>, a statement returns the exception (if any) with the state reached.
\<close>

datatype pyerror = KeyError | IndexError | TypeError | ValueError

text \<open>
  A Python \<^verbatim>\<open>float\<close> is an IEEE binary64 number: a rational, an infinity or a NaN
  (the sign of zero is not represented; no literal of the script is zero).
\<close>

datatype pyfloat = Finite rat | PosInf | NegInf | NaN

fun is_finite :: "pyfloat \<Rightarrow> bool" where
  "is_finite (Finite q) = True"
| "is_finite PosInf = False"
| "is_finite NegInf = False"
| "is_finite NaN = False"

definition round_half_even :: "rat \<Rightarrow> int" where
  "round_half_even q =
     (let f = \<lfloor>q\<rfloor>; d = q - of_int f
      in if d < 1 / 2 then f else if 1 / 2 < d then f + 1 else if even f then f else f + 1)"

text \<open>\<open>bit_length n\<close> is the number of binary digits of a positive integer.\<close>

function bit_length :: "int \<Rightarrow> nat" where
  "bit_length n = (if n \<le> 0 then 0 else Suc (bit_length (n div 2)))"
  by pat_completeness auto
termination
  by (relation "measure nat") auto

definition pow2 :: "int \<Rightarrow> rat" where
  "pow2 k = (if 0 \<le> k then 2 ^ nat k else 1 / 2 ^ nat (- k))"

text \<open>\<open>binary_exponent q\<close> is the \<open>e\<close> with \<open>2^e \<le> q < 2^(e+1)\<close>, for \<open>q > 0\<close>.\<close>

definition binary_exponent :: "rat \<Rightarrow> int" where
  "binary_exponent q =
     (let (a, b) = quotient_of q;
          k = int (bit_length a) - int (bit_length b)
      in if pow2 k \<le> q then k else k - 1)"

text \<open>
  The value of a decimal literal: the nearest binary64 number, ties to the even
  significand, with 53 significant bits down to exponent \<open>-1022\<close> and overflow to infinity.
\<close>

definition float_lit :: "rat \<Rightarrow> pyfloat" where
  "float_lit q =
     (if q = 0 then Finite 0
      else let e = max (binary_exponent \<bar>q\<bar>) (- 1022);
               mant = round_half_even (\<bar>q\<bar> / pow2 (e - 52))
           in if 1024 \<le> e \<or> (e = 1023 \<and> 2 ^ 53 \<le> mant)
              then (if q < 0 then NegInf else PosInf)
              else Finite ((if q < 0 then - 1 else 1) * of_int mant * pow2 (e - 52)))"

text \<open>Subscription \<^verbatim>\<open>xs[k]\<close> of a list: a negative index counts from the end.\<close>

definition list_get :: "'a list \<Rightarrow> int \<Rightarrow> pyerror + 'a" where
  "list_get xs k =
     (let n = int (length xs); j = (if k < 0 then k + n else k)
      in if j < 0 \<or> n \<le> j then Inl IndexError else Inr (xs ! nat j))"

text \<open>
  A \<^verbatim>\<open>dict\<close> keeps insertion order; it is the list of its items.
  Subscription \<^verbatim>\<open>d[k]\<close> raises \<^verbatim>\<open>KeyError\<close> on a missing key.
\<close>

definition dict_get :: "('k \<times> 'v) list \<Rightarrow> 'k \<Rightarrow> pyerror + 'v" where
  "dict_get d k = (case map_of d k of None \<Rightarrow> Inl KeyError | Some v \<Rightarrow> Inr v)"

text \<open>
  The values of \<^verbatim>\<open>data\<close>: the list of epochs under the key \<^verbatim>\<open>'epoch'\<close>, and under
  every other key a dictionary from metric names to lists of floats.
\<close>

datatype entry = Epochs "int list" | Metrics "(string \<times> pyfloat list) list"

type_synonym dataset = "(string \<times> entry) list"

text \<open>\<^verbatim>\<open>values[metric]\<close>: a list subscripted by a string raises \<^verbatim>\<open>TypeError\<close>.\<close>

definition entry_get :: "entry \<Rightarrow> string \<Rightarrow> pyerror + pyfloat list" where
  "entry_get v metric =
     (case v of Metrics m \<Rightarrow> dict_get m metric | Epochs xs \<Rightarrow> Inl TypeError)"

section \<open>The literal data and the constants of the script\<close>

definition data :: dataset where
  "data =
    [(''epoch'', Epochs [1, 5, 10, 15, 20, 25, 30]),
     (''No Preprocessing'', Metrics
       [(''loss'', map float_lit [2.491368, 2.128137, 2.081101, 2.049871, 2.021986, 1.998126, 1.975821]),
        (''pesq'', map float_lit [1.110734, 1.102173, 1.112359, 1.175780, 1.116488, 1.101073, 1.093451]),
        (''stoi'', map float_lit [0.346368, 0.498465, 0.558566, 0.489353, 0.477006, 0.470012, 0.450168])]),
     (''MelSEGAN + VMD + VAD'', Metrics
       [(''loss'', map float_lit [2.584934, 2.233211, 2.177864, 2.136796, 2.102346, 2.073838, 2.046205]),
        (''pesq'', map float_lit [1.088980, 1.108260, 1.101254, 1.102191, 1.100971, 1.093437, 1.127178]),
        (''stoi'', map float_lit [0.438488, 0.400358, 0.447792, 0.450923, 0.424635, 0.499560, 0.454808])]),
     (''MelSEGAN + VMD + DTW'', Metrics
       [(''loss'', map float_lit [2.131643, 1.736059, 1.696551, 1.672895, 1.654387, 1.640318, 1.629985]),
        (''pesq'', map float_lit [1.099543, 1.079158, 1.092555, 1.144524, 1.097848, 1.075867, 1.091959]),
        (''stoi'', map float_lit [0.595579, 0.597671, 0.614402, 0.640441, 0.627221, 0.616389, 0.616779])]),
     (''MelSEGAN + VMD + DTW + MAML'', Metrics
       [(''loss'', map float_lit [1.811897, 1.475650, 1.442068, 1.421961, 1.406229, 1.394270, 1.385487]),
        (''pesq'', map float_lit [1.319452, 1.294990, 1.311066, 1.373429, 1.317418, 1.291040, 1.310351]),
        (''stoi'', map float_lit [0.536021, 0.537904, 0.552962, 0.576397, 0.564499, 0.554750, 0.555101])]),
     (''MelSEGAN + VAD + VMD + MAML'', Metrics
       [(''loss'', map float_lit [1.938700, 1.674908, 1.633398, 1.602597, 1.576759, 1.555378, 1.534654]),
        (''pesq'', map float_lit [1.143429, 1.163673, 1.156317, 1.157301, 1.156020, 1.148109, 1.183537]),
        (''stoi'', map float_lit [0.306942, 0.280251, 0.313454, 0.315646, 0.297244, 0.349692, 0.318366])]),
     (''UNet + HiFigan + VMD + VAD'', Metrics
       [(''loss'', map float_lit [1.943267, 1.659947, 1.623259, 1.598899, 1.577149, 1.558538, 1.541140]),
        (''pesq'', map float_lit [1.277344, 1.267499, 1.279213, 1.352147, 1.283961, 1.266234, 1.257469]),
        (''stoi'', map float_lit [0.374077, 0.538342, 0.603251, 0.528501, 0.515166, 0.507613, 0.486181])]),
     (''UNet + HiFigan + VMD + DTW'', Metrics
       [(''loss'', map float_lit [1.793785, 1.532259, 1.498393, 1.475907, 1.455830, 1.438651, 1.422591]),
        (''pesq'', map float_lit [1.332881, 1.322608, 1.334831, 1.410936, 1.339786, 1.321288, 1.312141]),
        (''stoi'', map float_lit [0.387932, 0.558281, 0.625594, 0.548075, 0.534247, 0.526413, 0.504188])])]"

definition colors :: "string list" where
  "colors = [''#1f77b4'', ''#ff7f0e'', ''#2ca02c'', ''#d62728'', ''#9467bd'', ''#8c564b'', ''#e377c2'']"

definition line_styles :: "string list" where
  "line_styles = [''-'', ''-'', ''-'', ''-'', ''-'', ''--'', ''--'']"

definition metrics :: "string list" where
  "metrics = [''loss'', ''pesq'', ''stoi'']"

definition titles :: "string list" where
  "titles = [''Training Loss'', ''PESQ Score'', ''STOI Score'']"

definition ylabels :: "string list" where
  "ylabels = [''Loss'', ''PESQ'', ''STOI'']"

section \<open>String formatting\<close>

definition digit_char :: "int \<Rightarrow> char" where
  "digit_char d = ''0123456789'' ! nat d"

text \<open>The decimal digits of a non-negative integer.\<close>

function str_int :: "int \<Rightarrow> string" where
  "str_int n = (if n < 10 then [digit_char n] else str_int (n div 10) @ [digit_char (n mod 10)])"
  by pat_completeness auto
termination
  by (relation "measure nat") auto

text \<open>\<^verbatim>\<open>s.ljust(w)\<close> and \<^verbatim>\<open>s.rjust(w)\<close>: the alignments \<^verbatim>\<open><w\<close> and \<^verbatim>\<open>>w\<close> of a format
  specification pad with spaces and never truncate.\<close>

definition ljust :: "nat \<Rightarrow> string \<Rightarrow> string" where
  "ljust w s = s @ replicate (w - length s) CHR '' ''"

definition rjust :: "nat \<Rightarrow> string \<Rightarrow> string" where
  "rjust w s = replicate (w - length s) CHR '' '' @ s"

text \<open>
  The presentation type \<^verbatim>\<open>.3f\<close>: the exact value of the float, rounded to the nearest
  multiple of \<open>1/1000\<close> (ties to even), written with a sign only when negative, at least
  one digit before the point and three after it.
\<close>

definition format_3f :: "pyfloat \<Rightarrow> string" where
  "format_3f x =
     (case x of
        Finite q \<Rightarrow>
          (let r = round_half_even (\<bar>q\<bar> * 1000);
               frac = str_int (r mod 1000)
           in (if q < 0 then ''-'' else []) @ str_int (r div 1000) @ ''.''
              @ replicate (3 - length frac) CHR ''0'' @ frac)
      | PosInf \<Rightarrow> ''inf''
      | NegInf \<Rightarrow> ''-inf''
      | NaN \<Rightarrow> ''nan'')"

section \<open>The figure\<close>

record line2d =
  xdata :: "int list"
  ydata :: "pyfloat list"
  line_label :: string
  line_width :: nat
  line_color :: string
  line_style :: string

record axes =
  ax_lines :: "line2d list"
  ax_title :: "string option"
  ax_xlabel :: "string option"
  ax_ylabel :: "string option"
  ax_grid :: bool
  ax_legend :: "string list option"
  ax_xlim :: "(int \<times> int) option"

text \<open>A panel as \<^verbatim>\<open>plt.subplots\<close> creates it, with \<^verbatim>\<open>rcParams['axes.grid'] = True\<close>.\<close>

definition new_axes :: axes where
  "new_axes = \<lparr>ax_lines = [], ax_title = None, ax_xlabel = None, ax_ylabel = None,
               ax_grid = True, ax_legend = None, ax_xlim = None\<rparr>"

text \<open>
  \<^verbatim>\<open>Axes.plot(x, y, label=, linewidth=, color=, linestyle=)\<close> adds one line; the library
  raises \<^verbatim>\<open>ValueError\<close> when \<open>x\<close> and \<open>y\<close> differ in length. The \<open>x\<close> of the script is
  \<^verbatim>\<open>data['epoch']\<close>; a dictionary there is not a sequence of numbers and is rejected.
\<close>

definition axes_plot ::
  "axes \<Rightarrow> entry \<Rightarrow> pyfloat list \<Rightarrow> string \<Rightarrow> nat \<Rightarrow> string \<Rightarrow> string \<Rightarrow> pyerror + axes" where
  "axes_plot ax x y lbl lw c ls =
     (case x of
        Metrics m \<Rightarrow> Inl TypeError
      | Epochs xs \<Rightarrow>
          if length xs \<noteq> length y then Inl ValueError
          else Inr (ax\<lparr>ax_lines := ax_lines ax @
                 [\<lparr>xdata = xs, ydata = y, line_label = lbl, line_width = lw,
                   line_color = c, line_style = ls\<rparr>]\<rparr>))"

text \<open>\<^verbatim>\<open>Axes.legend()\<close> lists the labelled lines: a label that is empty or starts with an
  underscore is left out.\<close>

definition axes_legend :: "axes \<Rightarrow> axes" where
  "axes_legend ax =
     ax\<lparr>ax_legend := Some (filter (\<lambda>l. l \<noteq> [] \<and> hd l \<noteq> CHR ''_'') (map line_label (ax_lines ax)))\<rparr>"

section \<open>The state of the run\<close>

record pystate =
  st_data :: dataset
  st_suptitle :: "string option"
  st_axes :: "axes list"
  st_files :: "(string \<times> string option \<times> axes list) list"
  st_stdout :: string

text \<open>\<^verbatim>\<open>print(s)\<close> writes \<open>s\<close> and a newline to standard output.\<close>

definition py_print :: "string \<Rightarrow> pystate \<Rightarrow> pystate" where
  "py_print s st = st\<lparr>st_stdout := st_stdout st @ s @ [CHR 0x0A]\<rparr>"

section \<open>The plot loop (lines 67 to 81)\<close>

text \<open>The arguments of the call of \<^verbatim>\<open>plot\<close>, evaluated from left to right:
  \<^verbatim>\<open>data['epoch']\<close>, \<^verbatim>\<open>values[metric]\<close>, \<^verbatim>\<open>colors[i-1]\<close>, \<^verbatim>\<open>line_styles[i-1]\<close>.\<close>

definition plot_args ::
  "dataset \<Rightarrow> string \<Rightarrow> nat \<Rightarrow> entry \<Rightarrow> pyerror + (entry \<times> pyfloat list \<times> string \<times> string)" where
  "plot_args d metric i vals =
     (case dict_get d ''epoch'' of Inl e \<Rightarrow> Inl e | Inr x \<Rightarrow>
      (case entry_get vals metric of Inl e \<Rightarrow> Inl e | Inr y \<Rightarrow>
       (case list_get colors (int i - 1) of Inl e \<Rightarrow> Inl e | Inr c \<Rightarrow>
        (case list_get line_styles (int i - 1) of Inl e \<Rightarrow> Inl e | Inr ls \<Rightarrow>
           Inr (x, y, c, ls)))))"

text \<open>The inner loop \<^verbatim>\<open>for i, (model, values) in enumerate(data.items())\<close> on one panel.\<close>

fun plot_models ::
  "dataset \<Rightarrow> string \<Rightarrow> (nat \<times> string \<times> entry) list \<Rightarrow> axes \<Rightarrow> pyerror option \<times> axes" where
  "plot_models d metric [] ax = (None, ax)"
| "plot_models d metric ((i, model, vals) # rest) ax =
     (if model \<noteq> ''epoch'' then
        (case plot_args d metric i vals of
           Inl e \<Rightarrow> (Some e, ax)
         | Inr (x, y, c, ls) \<Rightarrow>
             (case axes_plot ax x y model 2 c ls of
                Inl e \<Rightarrow> (Some e, ax)
              | Inr ax' \<Rightarrow> plot_models d metric rest ax'))
      else plot_models d metric rest ax)"

text \<open>The statements after the inner loop: title, labels, grid, legend and
  \<^verbatim>\<open>set_xlim(0, 30)\<close>.\<close>

definition decorate :: "string \<Rightarrow> string \<Rightarrow> axes \<Rightarrow> axes" where
  "decorate title ylabel ax =
     (axes_legend (ax\<lparr>ax_title := Some title, ax_xlabel := Some ''Epoch'',
                      ax_ylabel := Some ylabel, ax_grid := True\<rparr>))\<lparr>ax_xlim := Some (0, 30)\<rparr>"

text \<open>The outer loop \<^verbatim>\<open>for idx, (metric, title, ylabel) in enumerate(zip(...))\<close>.\<close>

fun plot_panels ::
  "(nat \<times> string \<times> string \<times> string) list \<Rightarrow> pystate \<Rightarrow> pyerror option \<times> pystate" where
  "plot_panels [] st = (None, st)"
| "plot_panels ((idx, metric, title, ylabel) # rest) st =
     (case list_get (st_axes st) (int idx) of
        Inl e \<Rightarrow> (Some e, st)
      | Inr ax \<Rightarrow>
          (case plot_models (st_data st) metric (enumerate 0 (st_data st)) ax of
             (Some e, ax') \<Rightarrow> (Some e, st\<lparr>st_axes := (st_axes st)[idx := ax']\<rparr>)
           | (None, ax') \<Rightarrow>
               plot_panels rest (st\<lparr>st_axes := (st_axes st)[idx := decorate title ylabel ax']\<rparr>)))"

text \<open>The Renderer: the figure of three panels, the plot loop, and \<^verbatim>\<open>savefig\<close>
  (\<^verbatim>\<open>tight_layout\<close>, \<^verbatim>\<open>subplots_adjust\<close> and \<^verbatim>\<open>show\<close> change no content of the figure).\<close>

definition savefig :: "string \<Rightarrow> pystate \<Rightarrow> pystate" where
  "savefig path st = st\<lparr>st_files := (path, st_suptitle st, st_axes st) # st_files st\<rparr>"

definition render :: "pystate \<Rightarrow> pyerror option \<times> pystate" where
  "render st =
     (case plot_panels (enumerate 0 (zip metrics (zip titles ylabels)))
             (st\<lparr>st_suptitle := Some ''Training Metrics Comparison'',
                 st_axes := replicate 3 new_axes\<rparr>) of
        (Some e, st') \<Rightarrow> (Some e, st')
      | (None, st') \<Rightarrow> (None, savefig ''training_metrics_comparison.png'' st'))"

section \<open>The summary (lines 90 to 97)\<close>

text \<open>The three expressions of the row, evaluated from left to right:
  \<^verbatim>\<open>values['loss'][-1]\<close>, \<^verbatim>\<open>values['pesq'][-1]\<close>, \<^verbatim>\<open>values['stoi'][-1]\<close>.\<close>

definition last_value :: "entry \<Rightarrow> string \<Rightarrow> pyerror + pyfloat" where
  "last_value vals metric =
     (case entry_get vals metric of Inl e \<Rightarrow> Inl e | Inr ys \<Rightarrow> list_get ys (- 1))"

definition row_values :: "entry \<Rightarrow> pyerror + (pyfloat \<times> pyfloat \<times> pyfloat)" where
  "row_values vals =
     (case last_value vals ''loss'' of Inl e \<Rightarrow> Inl e | Inr l \<Rightarrow>
      (case last_value vals ''pesq'' of Inl e \<Rightarrow> Inl e | Inr p \<Rightarrow>
       (case last_value vals ''stoi'' of Inl e \<Rightarrow> Inl e | Inr t \<Rightarrow> Inr (l, p, t))))"

definition row_text :: "string \<Rightarrow> pyfloat \<Rightarrow> pyfloat \<Rightarrow> pyfloat \<Rightarrow> string" where
  "row_text model l p t =
     ljust 30 model @ '' '' @ rjust 10 (format_3f l) @ '' '' @ rjust 10 (format_3f p)
       @ '' '' @ rjust 10 (format_3f t)"

fun print_rows :: "dataset \<Rightarrow> pystate \<Rightarrow> pyerror option \<times> pystate" where
  "print_rows [] st = (None, st)"
| "print_rows ((model, vals) # rest) st =
     (if model \<noteq> ''epoch'' then
        (case row_values vals of
           Inl e \<Rightarrow> (Some e, st)
         | Inr (l, p, t) \<Rightarrow> print_rows rest (py_print (row_text model l p t) st))
      else print_rows rest st)"

definition rule_line :: string where
  "rule_line = replicate 80 CHR ''-''"

definition header_line :: string where
  "header_line = ljust 30 ''Model'' @ '' '' @ rjust 10 ''Loss'' @ '' '' @ rjust 10 ''PESQ''
     @ '' '' @ rjust 10 ''STOI''"

definition title_text :: string where
  "title_text = CHR 0x0A # ''Final Metrics (at Epoch 30):''"

definition report :: "pystate \<Rightarrow> pyerror option \<times> pystate" where
  "report st =
     (case print_rows (st_data st)
             (py_print rule_line (py_print header_line (py_print rule_line
                (py_print title_text st)))) of
        (Some e, st') \<Rightarrow> (Some e, st')
      | (None, st') \<Rightarrow> (None, py_print rule_line st'))"

section \<open>The script\<close>

text \<open>The statements after the assignment of \<^verbatim>\<open>data\<close>: the Renderer, then the Reporter;
  an exception ends the run.\<close>

definition script :: "pystate \<Rightarrow> pyerror option \<times> pystate" where
  "script st =
     (case render st of
        (Some e, st') \<Rightarrow> (Some e, st')
      | (None, st') \<Rightarrow> report st')"

definition main :: "pystate \<Rightarrow> pyerror option \<times> pystate" where
  "main st = script (st\<lparr>st_data := data\<rparr>)"

text \<open>The state in which the interpreter starts the module.\<close>

definition initial :: pystate where
  "initial = \<lparr>st_data = [], st_suptitle = None, st_axes = [], st_files = [], st_stdout = []\<rparr>"

section \<open>Notions used to state the properties\<close>

text \<open>The series of a dataset: its items in insertion order, the key \<^verbatim>\<open>'epoch'\<close> left out.\<close>

definition series_of :: "dataset \<Rightarrow> (string \<times> entry) list" where
  "series_of d = filter (\<lambda>(k, v). k \<noteq> ''epoch'') d"

text \<open>\<^verbatim>\<open>values[metric]\<close> where it is defined, the empty list elsewhere.\<close>

definition the_metric :: "entry \<Rightarrow> string \<Rightarrow> pyfloat list" where
  "the_metric v m = (case entry_get v m of Inr ys \<Rightarrow> ys | Inl e \<Rightarrow> [])"

text \<open>
  The figure described directly: in every panel one line per series, in insertion order,
  the series at position \<open>k\<close> drawn over the epochs with the colour and the line style at
  position \<open>k\<close> (modulo the length of the list), then title, labels, grid, legend and
  the x-axis range of the source.
\<close>

definition expected_lines :: "string \<Rightarrow> line2d list" where
  "expected_lines metric =
     map (\<lambda>(k, (name, vals)).
            \<lparr>xdata = [1, 5, 10, 15, 20, 25, 30], ydata = the_metric vals metric,
             line_label = name, line_width = 2,
             line_color = colors ! (k mod length colors),
             line_style = line_styles ! (k mod length line_styles)\<rparr>)
         (enumerate 0 (series_of data))"

definition expected_panel :: "string \<Rightarrow> string \<Rightarrow> string \<Rightarrow> axes" where
  "expected_panel metric title ylabel =
     \<lparr>ax_lines = expected_lines metric, ax_title = Some title, ax_xlabel = Some ''Epoch'',
      ax_ylabel = Some ylabel, ax_grid = True, ax_legend = Some (map fst (series_of data)),
      ax_xlim = Some (0, 30)\<rparr>"

definition expected_figure :: "axes list" where
  "expected_figure =
     [expected_panel ''loss'' ''Training Loss'' ''Loss'',
      expected_panel ''pesq'' ''PESQ Score'' ''PESQ'',
      expected_panel ''stoi'' ''STOI Score'' ''STOI'']"

text \<open>The least and the greatest epoch of a dataset.\<close>

definition epoch_range :: "dataset \<Rightarrow> (int \<times> int) option" where
  "epoch_range d =
     (case dict_get d ''epoch'' of
        Inr (Epochs (x # xs)) \<Rightarrow> Some (Min (set (x # xs)), Max (set (x # xs)))
      | _ \<Rightarrow> None)"

text \<open>What a run shows: the exception (if any), the text it wrote, the files it wrote
  and the figure it drew. Two states may differ in what was printed or written before.\<close>

definition printed :: "pystate \<Rightarrow> pystate \<Rightarrow> string" where
  "printed st st' = drop (length (st_stdout st)) (st_stdout st')"

definition written :: "pystate \<Rightarrow> pystate \<Rightarrow> (string \<times> string option \<times> axes list) list" where
  "written st st' = take (length (st_files st') - length (st_files st)) (st_files st')"

definition outcome ::
  "pystate \<Rightarrow> pyerror option \<times> string \<times> (string \<times> string option \<times> axes list) list \<times> string option \<times> axes list" where
  "outcome st =
     (case script st of (e, st') \<Rightarrow> (e, printed st st', written st st', st_suptitle st', st_axes st'))"
text \<open>The epoch sequence of a dataset, and the invariant of one series: each of the three
  metrics is present, has the given length, and holds finite numbers only.\<close>

definition epochs_of :: "dataset \<Rightarrow> int list" where
  "epochs_of d = (case dict_get d ''epoch'' of Inr (Epochs xs) \<Rightarrow> xs | _ \<Rightarrow> [])"

definition series_ok :: "nat \<Rightarrow> entry \<Rightarrow> bool" where
  "series_ok n v =
     list_all (\<lambda>m. case entry_get v m of
                      Inr ys \<Rightarrow> length ys = n \<and> list_all is_finite ys
                    | Inl e \<Rightarrow> False) metrics"

text \<open>The text of a sequence of lines, each ended by a newline.\<close>

definition unlines :: "string list \<Rightarrow> string" where
  "unlines ls = concat (map (\<lambda>l. l @ [CHR 0x0A]) ls)"

text \<open>The seven data rows of the table, as the terminal shows them.\<close>

definition expected_rows :: "string list" where
  "expected_rows =
     [''No Preprocessing                    1.976      1.093      0.450'',
      ''MelSEGAN + VMD + VAD                2.046      1.127      0.455'',
      ''MelSEGAN + VMD + DTW                1.630      1.092      0.617'',
      ''MelSEGAN + VMD + DTW + MAML         1.385      1.310      0.555'',
      ''MelSEGAN + VAD + VMD + MAML         1.535      1.184      0.318'',
      ''UNet + HiFigan + VMD + VAD          1.541      1.257      0.486'',
      ''UNet + HiFigan + VMD + DTW          1.423      1.312      0.504'']"

text \<open>
  The layout of a data row: 63 characters; the name in the first 30; then three fields
  of 10 characters, each after one space, each a number with exactly three digits after
  the point, preceded by spaces only.
\<close>

definition is_digit :: "char \<Rightarrow> bool" where
  "is_digit c = (c \<in> set ''0123456789'')"

definition fixed3 :: "string \<Rightarrow> bool" where
  "fixed3 s =
     (let u = (if s \<noteq> [] \<and> hd s = CHR ''-'' then tl s else s);
          ip = takeWhile is_digit u;
          r = dropWhile is_digit u
      in ip \<noteq> [] \<and> length r = 4 \<and> hd r = CHR ''.'' \<and> list_all is_digit (tl r))"

definition right_aligned :: "nat \<Rightarrow> string \<Rightarrow> bool" where
  "right_aligned w f = (length f = w \<and> fixed3 (dropWhile (\<lambda>c. c = CHR '' '') f))"

definition row_layout :: "string \<Rightarrow> bool" where
  "row_layout r =
     (length r = 63 \<and> r ! 30 = CHR '' '' \<and> r ! 41 = CHR '' '' \<and> r ! 52 = CHR '' ''
      \<and> right_aligned 10 (take 10 (drop 31 r))
      \<and> right_aligned 10 (take 10 (drop 42 r))
      \<and> right_aligned 10 (take 10 (drop 53 r)))"

text \<open>
  Datasets that break the invariant: some series has a metric sequence whose length is
  not that of the epoch sequence, or an empty metric sequence. Two such datasets: in the
  first, \<^verbatim>\<open>loss\<close> is one element shorter than \<^verbatim>\<open>pesq\<close>; in the second, every sequence is
  empty.
\<close>

definition length_mismatch :: "dataset \<Rightarrow> bool" where
  "length_mismatch d =
     list_ex (\<lambda>(name, v).
        list_ex (\<lambda>m. case entry_get v m of
                        Inr ys \<Rightarrow> length ys \<noteq> length (epochs_of d)
                      | Inl e \<Rightarrow> False) metrics) (series_of d)"

definition empty_metric :: "dataset \<Rightarrow> bool" where
  "empty_metric d =
     list_ex (\<lambda>(name, v).
        list_ex (\<lambda>m. case entry_get v m of Inr ys \<Rightarrow> ys = [] | Inl e \<Rightarrow> False) metrics)
       (series_of d)"

definition short_loss :: dataset where
  "short_loss =
     [(''epoch'', Epochs [1, 2]),
      (''A'', Metrics [(''loss'', map float_lit [0.5]),
                       (''pesq'', map float_lit [1.0, 1.1]),
                       (''stoi'', map float_lit [0.5, 0.6])])]"

definition all_empty :: dataset where
  "all_empty =
     [(''epoch'', Epochs []),
      (''A'', Metrics [(''loss'', []), (''pesq'', []), (''stoi'', [])])]"

text \<open>
  Two datasets of another shape than the literal: one with eight series, one more than
  there are colours; one in which \<^verbatim>\<open>'epoch'\<close> is the second key, after a series.
\<close>

definition one_point :: "string \<Rightarrow> string \<times> entry" where
  "one_point name =
     (name, Metrics [(''loss'', [Finite 1]), (''pesq'', [Finite 1]), (''stoi'', [Finite 1])])"

definition eight_series :: dataset where
  "eight_series =
     (''epoch'', Epochs [1]) #
     map one_point [''s0'', ''s1'', ''s2'', ''s3'', ''s4'', ''s5'', ''s6'', ''s7'']"

definition epoch_second :: dataset where
  "epoch_second = [one_point ''A'', (''epoch'', Epochs [1]), one_point ''B'']"

text \<open>What the figure shows of a line's identity: its label, colour and style.\<close>

definition line_look :: "line2d \<Rightarrow> string \<times> string \<times> string" where
  "line_look l = (line_label l, line_color l, line_style l)"

text \<open>
  The row the table holds for a series: the name, left-aligned in 30 columns, then for
  each metric a space and the last value in the format \<^verbatim>\<open>.3f\<close>, right-aligned in 10
  columns. A value fits its column when it is finite and its text has at most 10
  characters.
\<close>

definition table_row :: "string \<times> entry \<Rightarrow> string" where
  "table_row =
     (\<lambda>(name, v). ljust 30 name @
        concat (map (\<lambda>m. CHR '' '' # rjust 10 (format_3f (last (the_metric v m)))) metrics))"

definition fits :: "pyfloat \<Rightarrow> bool" where
  "fits x = (is_finite x \<and> length (format_3f x) \<le> 10)"

text \<open>A dataset with a name of more than 30 characters and a value of more than 10.\<close>

definition wide_rows :: dataset where
  "wide_rows =
     [(''epoch'', Epochs [1]),
      (''A configuration with a rather long display name'', Metrics
         [(''loss'', [Finite 0.5]), (''pesq'', [Finite 1]), (''stoi'', [Finite 0.5])]),
      (''B'', Metrics
         [(''loss'', [Finite 12345678.25]), (''pesq'', [Finite 1]), (''stoi'', [Finite 0.5])])]"

section \<open>What the loops change in the state\<close>

text \<open>
  Each loop only adds to the part of the state it writes, and what it adds is a function
  of the dataset alone: the rows printed do not depend on the text printed before, the
  panels drawn do not depend on the files written before.
\<close>

lemma print_rows_appends:
  "\<exists>e t. \<forall>st. print_rows d st = (e, st\<lparr>st_stdout := st_stdout st @ t\<rparr>)"
proof (induction d)
  case Nil
  show ?case by (rule exI[of _ None], rule exI[of _ "[]"]) simp
next
  case (Cons a d)
  then obtain e t where IH: "\<And>st. print_rows d st = (e, st\<lparr>st_stdout := st_stdout st @ t\<rparr>)"
    by blast
  obtain model vals where a: "a = (model, vals)" by (cases a)
  show ?case
  proof (cases "model = ''epoch''")
    case True
    then show ?thesis using IH a by (intro exI[of _ e] exI[of _ t]) simp
  next
    case False
    show ?thesis
    proof (cases "row_values vals")
      case (Inl err)
      then show ?thesis using False a
        by (intro exI[of _ "Some err"] exI[of _ "[]"]) simp
    next
      case (Inr r)
      obtain l p u where r: "r = (l, p, u)" by (cases r)
      show ?thesis using False a Inr r
        by (intro exI[of _ e] exI[of _ "row_text model l p u @ [CHR 0x0A] @ t"])
           (simp add: IH py_print_def)
    qed
  qed
qed

lemma report_appends:
  "\<exists>e t. \<forall>st. st_data st = d \<longrightarrow>
     report st = (e, st\<lparr>st_stdout := st_stdout st @ title_text @ [CHR 0x0A] @ t\<rparr>)"
proof -
  obtain e t where R: "\<And>st. print_rows d st = (e, st\<lparr>st_stdout := st_stdout st @ t\<rparr>)"
    using print_rows_appends[of d] by blast
  show ?thesis
  proof (cases e)
    case None
    then show ?thesis
      by (intro exI[of _ None]
            exI[of _ "rule_line @ [CHR 0x0A] @ header_line @ [CHR 0x0A] @ rule_line @ [CHR 0x0A] @ t @ rule_line @ [CHR 0x0A]"])
         (simp add: report_def R py_print_def)
  next
    case (Some err)
    then show ?thesis
      by (intro exI[of _ "Some err"]
            exI[of _ "rule_line @ [CHR 0x0A] @ header_line @ [CHR 0x0A] @ rule_line @ [CHR 0x0A] @ t"])
         (simp add: report_def R py_print_def)
  qed
qed

lemma plot_panels_effect:
  "\<exists>e axs. \<forall>st. st_data st = d \<and> st_axes st = a \<longrightarrow> plot_panels ps st = (e, st\<lparr>st_axes := axs\<rparr>)"
proof (induction ps arbitrary: a)
  case Nil
  show ?case by (intro exI[of _ None] exI[of _ a]) simp
next
  case (Cons p ps)
  obtain idx metric title ylabel where p: "p = (idx, metric, title, ylabel)" by (cases p)
  show ?case
  proof (cases "list_get a (int idx)")
    case (Inl err)
    then show ?thesis using p by (intro exI[of _ "Some err"] exI[of _ a]) simp
  next
    case (Inr ax)
    obtain r ax' where pm: "plot_models d metric (enumerate 0 d) ax = (r, ax')"
      by (cases "plot_models d metric (enumerate 0 d) ax")
    show ?thesis
    proof (cases r)
      case (Some err)
      then show ?thesis using p Inr pm
        by (intro exI[of _ "Some err"] exI[of _ "a[idx := ax']"]) simp
    next
      case None
      obtain e axs where IH: "\<And>st. st_data st = d \<and> st_axes st = a[idx := decorate title ylabel ax']
          \<Longrightarrow> plot_panels ps st = (e, st\<lparr>st_axes := axs\<rparr>)"
        using Cons[of "a[idx := decorate title ylabel ax']"] by blast
      show ?thesis using p Inr pm None
        by (intro exI[of _ e] exI[of _ axs]) (simp add: IH)
    qed
  qed
qed

lemma render_effect:
  "\<exists>e axs fs. \<forall>st. st_data st = d \<longrightarrow>
     render st = (e, st\<lparr>st_suptitle := Some ''Training Metrics Comparison'', st_axes := axs,
                          st_files := fs @ st_files st\<rparr>) \<and> (e \<noteq> None \<longrightarrow> fs = [])"
proof -
  obtain e axs where P: "\<And>st. st_data st = d \<and> st_axes st = replicate 3 new_axes \<Longrightarrow>
      plot_panels (enumerate 0 (zip metrics (zip titles ylabels))) st = (e, st\<lparr>st_axes := axs\<rparr>)"
    using plot_panels_effect[of d "replicate 3 new_axes"] by blast
  show ?thesis
  proof (cases e)
    case None
    then show ?thesis
      by (intro exI[of _ None] exI[of _ axs]
            exI[of _ "[(''training_metrics_comparison.png'', Some ''Training Metrics Comparison'', axs)]"])
         (simp add: render_def P savefig_def)
  next
    case (Some err)
    then show ?thesis
      by (intro exI[of _ "Some err"] exI[of _ axs] exI[of _ "[]"]) (simp add: render_def P)
  qed
qed

lemma script_effect:
  "\<exists>e axs fs t. \<forall>st. st_data st = d \<longrightarrow>
     script st = (e, st\<lparr>st_suptitle := Some ''Training Metrics Comparison'', st_axes := axs,
                          st_files := fs @ st_files st, st_stdout := st_stdout st @ t\<rparr>)"
proof -
  obtain e axs fs where R: "\<And>st. st_data st = d \<Longrightarrow>
      render st = (e, st\<lparr>st_suptitle := Some ''Training Metrics Comparison'', st_axes := axs,
                          st_files := fs @ st_files st\<rparr>)"
    using render_effect[of d] by blast
  obtain e' t where P: "\<And>st. st_data st = d \<Longrightarrow>
      report st = (e', st\<lparr>st_stdout := st_stdout st @ title_text @ [CHR 0x0A] @ t\<rparr>)"
    using report_appends[of d] by blast
  show ?thesis
  proof (cases e)
    case None
    then show ?thesis
      by (intro exI[of _ e'] exI[of _ axs] exI[of _ fs] exI[of _ "title_text @ [CHR 0x0A] @ t"])
         (simp add: script_def R P)
  next
    case (Some err)
    then show ?thesis
      by (intro exI[of _ "Some err"] exI[of _ axs] exI[of _ fs] exI[of _ "[]"])
         (simp add: script_def R)
  qed
qed

section \<open>The run on the literal data\<close>

lemma plot_models_data:
  "metric \<in> set metrics \<Longrightarrow> plot_models data metric (enumerate 0 data) ax = (None, ax\<lparr>ax_lines := ax_lines ax @ expected_lines metric\<rparr>)"
  by (simp add: metrics_def expected_lines_def series_of_def the_metric_def data_def plot_args_def dict_get_def entry_get_def
        list_get_def colors_def line_styles_def axes_plot_def enumerate_eq_zip upt_rec Let_def) (elim disjE; simp)

lemma legend_expected: "metric \<in> set metrics \<Longrightarrow> 
   filter (\<lambda>l. l \<noteq> [] \<and> hd l \<noteq> CHR ''_'') (map line_label (expected_lines metric)) = map fst (series_of data)"
  by (simp add: expected_lines_def series_of_def data_def enumerate_eq_zip upt_rec)

lemma decorate_expected:
  "metric \<in> set metrics \<Longrightarrow> decorate title ylabel (new_axes\<lparr>ax_lines := ax_lines new_axes @ expected_lines metric\<rparr>) = expected_panel metric title ylabel"
  by (simp add: decorate_def axes_legend_def new_axes_def expected_panel_def legend_expected)

lemma panels_eq:
  "enumerate 0 (zip metrics (zip titles ylabels)) =
     [(0, ''loss'', ''Training Loss'', ''Loss''), (1, ''pesq'', ''PESQ Score'', ''PESQ''),
      (2, ''stoi'', ''STOI Score'', ''STOI'')]"
  by (simp add: metrics_def titles_def ylabels_def enumerate_eq_zip upt_rec)

lemma render_data:
  "st_data st = data \<Longrightarrow> render st =
     (None, st\<lparr>st_suptitle := Some ''Training Metrics Comparison'', st_axes := expected_figure,
               st_files := (''training_metrics_comparison.png'', Some ''Training Metrics Comparison'', expected_figure) # st_files st\<rparr>)"
  unfolding render_def panels_eq
  by (simp add: list_get_def metrics_def plot_models_data decorate_expected savefig_def
        expected_figure_def numeral_3_eq_3)

lemma main_axes: "st_axes (snd (main st)) = expected_figure"
proof -
  obtain e t where "\<forall>s. st_data s = data \<longrightarrow>
      report s = (e, s\<lparr>st_stdout := st_stdout s @ title_text @ [CHR 0x0A] @ t\<rparr>)"
    using report_appends[of data] by blast
  then show ?thesis by (simp add: main_def script_def render_data)
qed

lemma series_of_data_names:
  "map fst (series_of data) =
     [''No Preprocessing'', ''MelSEGAN + VMD + VAD'', ''MelSEGAN + VMD + DTW'',
      ''MelSEGAN + VMD + DTW + MAML'', ''MelSEGAN + VAD + VMD + MAML'',
      ''UNet + HiFigan + VMD + VAD'', ''UNet + HiFigan + VMD + DTW'']"
  by (simp add: series_of_def data_def)

lemma expected_lines_styles:
  "map (\<lambda>l. (line_label l, line_color l, line_style l)) (expected_lines metric) =
     [(''No Preprocessing'', ''#1f77b4'', ''-''), (''MelSEGAN + VMD + VAD'', ''#ff7f0e'', ''-''),
      (''MelSEGAN + VMD + DTW'', ''#2ca02c'', ''-''), (''MelSEGAN + VMD + DTW + MAML'', ''#d62728'', ''-''),
      (''MelSEGAN + VAD + VMD + MAML'', ''#9467bd'', ''-''), (''UNet + HiFigan + VMD + VAD'', ''#8c564b'', ''--''),
      (''UNet + HiFigan + VMD + DTW'', ''#e377c2'', ''--'')]"
  by (simp add: expected_lines_def series_of_def data_def colors_def line_styles_def
        enumerate_eq_zip upt_rec)


lemma epoch_range_data: "epoch_range data = Some (1, 30)"
  by (simp add: epoch_range_def dict_get_def data_def)


section \<open>Literals that denote finite floats\<close>

text \<open>A decimal literal of magnitude below \<open>2^n\<close>, with \<open>n\<close> up to 1022, does not overflow.\<close>

lemma bit_length_upper: "0 < m \<Longrightarrow> m < 2 ^ bit_length m"
proof (induction m rule: bit_length.induct)
  case (1 n)
  show ?case
  proof (cases "n div 2 \<le> 0")
    case True
    with 1(2) have "n = 1" by linarith
    then show ?thesis by (subst bit_length.simps) (simp add: bit_length.simps[of 0])
  next
    case False
    then have "n div 2 < 2 ^ bit_length (n div 2)" using 1 by simp
    then have "n < 2 * 2 ^ bit_length (n div 2)" by linarith
    then show ?thesis using 1(2) by (subst bit_length.simps) simp
  qed
qed

lemma bit_length_lower: "0 < m \<Longrightarrow> 2 ^ (bit_length m - 1) \<le> m"
proof (induction m rule: bit_length.induct)
  case (1 n)
  show ?case
  proof (cases "n div 2 \<le> 0")
    case True
    with 1(2) have "n = 1" by linarith
    then show ?thesis by (subst bit_length.simps) (simp add: bit_length.simps[of 0])
  next
    case False
    then have IH: "2 ^ (bit_length (n div 2) - 1) \<le> n div 2" using 1 by simp
    have pos: "0 < bit_length (n div 2)" using False by (subst bit_length.simps) simp
    have "(2::int) ^ bit_length (n div 2) = 2 * 2 ^ (bit_length (n div 2) - 1)"
      using pos by (cases "bit_length (n div 2)") simp_all
    then have "2 ^ bit_length (n div 2) \<le> n" using IH by linarith
    then show ?thesis using 1(2) by (subst bit_length.simps) simp
  qed
qed

lemma bit_length_le: "0 < m \<Longrightarrow> m < 2 ^ N \<Longrightarrow> bit_length m \<le> N"
proof -
  assume m: "0 < m" "m < 2 ^ N"
  have "(2::int) ^ (bit_length m - 1) < 2 ^ N" using bit_length_lower[OF m(1)] m(2) by linarith
  then have "bit_length m - 1 < N" by (simp add: power_strict_increasing_iff)
  then show ?thesis by linarith
qed

lemma binary_exponent_le: "0 < q \<Longrightarrow> q < 2 ^ n \<Longrightarrow> binary_exponent q \<le> int n"
proof -
  assume q: "0 < q" "q < 2 ^ n"
  obtain a b where ab: "quotient_of q = (a, b)" by (cases "quotient_of q")
  have b: "0 < b" using ab by (rule quotient_of_denom_pos)
  have qab: "q = of_int a / of_int b" using ab by (rule quotient_of_div)
  have a: "0 < a" using q(1) b qab by (simp add: zero_less_divide_iff)
  have "(of_int a :: rat) < 2 ^ n * of_int b" using q(2) b qab by (simp add: pos_divide_less_eq)
  then have "(of_int a :: rat) < of_int (2 ^ n * b)" by simp
  then have "a < 2 ^ n * b" by (simp only: of_int_less_iff)
  also have "\<dots> < 2 ^ n * 2 ^ bit_length b" using bit_length_upper[OF b] by simp
  finally have "a < 2 ^ (n + bit_length b)" by (simp add: power_add)
  then have "bit_length a \<le> n + bit_length b" using a by (rule bit_length_le[rotated])
  then show ?thesis using ab by (simp add: binary_exponent_def Let_def)
qed

lemma float_lit_finite: "\<bar>q\<bar> < 2 ^ n \<Longrightarrow> n \<le> 1022 \<Longrightarrow> is_finite (float_lit q)"
proof (cases "q = 0")
  case True
  then show ?thesis by (simp add: float_lit_def)
next
  case False
  assume q: "\<bar>q\<bar> < 2 ^ n" "n \<le> 1022"
  have "binary_exponent \<bar>q\<bar> \<le> int n" using False q(1) by (intro binary_exponent_le) simp_all
  then have "binary_exponent \<bar>q\<bar> \<le> 1022" using q(2) by simp
  then show ?thesis using False by (cases "q < 0") (auto simp add: float_lit_def Let_def abs_if max_def)
qed

section \<open>The table printed for the literal data\<close>

lemma format_last_values:
  "format_3f (float_lit 1.975821) = ''1.976''" "format_3f (float_lit 1.093451) = ''1.093''"
  "format_3f (float_lit 0.450168) = ''0.450''" "format_3f (float_lit 2.046205) = ''2.046''"
  "format_3f (float_lit 1.127178) = ''1.127''" "format_3f (float_lit 0.454808) = ''0.455''"
  "format_3f (float_lit 1.629985) = ''1.630''" "format_3f (float_lit 1.091959) = ''1.092''"
  "format_3f (float_lit 0.616779) = ''0.617''" "format_3f (float_lit 1.385487) = ''1.385''"
  "format_3f (float_lit 1.310351) = ''1.310''" "format_3f (float_lit 0.555101) = ''0.555''"
  "format_3f (float_lit 1.534654) = ''1.535''" "format_3f (float_lit 1.183537) = ''1.184''"
  "format_3f (float_lit 0.318366) = ''0.318''" "format_3f (float_lit 1.541140) = ''1.541''"
  "format_3f (float_lit 1.257469) = ''1.257''" "format_3f (float_lit 0.486181) = ''0.486''"
  "format_3f (float_lit 1.422591) = ''1.423''" "format_3f (float_lit 1.312141) = ''1.312''"
  "format_3f (float_lit 0.504188) = ''0.504''"
  by code_simp+

lemma replicate_numeral_unfold:
  "replicate (numeral k) x = x # replicate (pred_numeral k) x"
  by (simp add: numeral_eq_Suc)

lemma print_rows_data:
  "print_rows data st = (None, st\<lparr>st_stdout := st_stdout st @ unlines expected_rows\<rparr>)"
  by (simp add: data_def row_values_def last_value_def entry_get_def dict_get_def list_get_def
        row_text_def format_last_values[simplified] ljust_def rjust_def py_print_def unlines_def replicate_numeral_unfold
        expected_rows_def)

lemma unlines_append: "unlines (xs @ ys) = unlines xs @ unlines ys"
  by (simp add: unlines_def)

lemma report_data:
  "st_data st = data \<Longrightarrow> report st =
     (None, st\<lparr>st_stdout := st_stdout st @
        unlines ([[], ''Final Metrics (at Epoch 30):'', rule_line, header_line, rule_line]
                 @ expected_rows @ [rule_line])\<rparr>)"
  by (simp add: report_def print_rows_data py_print_def title_text_def unlines_append)
     (simp add: unlines_def)

lemma main_data:
  "main st =
     (None, st\<lparr>st_data := data, st_suptitle := Some ''Training Metrics Comparison'',
               st_axes := expected_figure,
               st_files := (''training_metrics_comparison.png'',
                            Some ''Training Metrics Comparison'', expected_figure) # st_files st,
               st_stdout := st_stdout st @
                 unlines ([[], ''Final Metrics (at Epoch 30):'', rule_line, header_line, rule_line]
                          @ expected_rows @ [rule_line])\<rparr>)"
  by (simp add: main_def script_def render_data report_data)

lemma main_printed:
  "printed st (snd (main st)) =
     unlines ([[], ''Final Metrics (at Epoch 30):'', rule_line, header_line, rule_line]
              @ expected_rows @ [rule_line])"
  by (simp add: main_data printed_def)

lemma rows_formula:
  "map (\<lambda>(name, v). ljust 30 name @
          concat (map (\<lambda>m. CHR '' '' # rjust 10 (format_3f (last (the_metric v m)))) metrics))
       (series_of data) = expected_rows"
  by (simp add: series_of_def data_def the_metric_def entry_get_def dict_get_def metrics_def
        format_last_values[simplified] ljust_def rjust_def replicate_numeral_unfold
        expected_rows_def)

lemma rows_values:
  "map (\<lambda>(name, v). (name, map (\<lambda>m. format_3f (last (the_metric v m))) metrics))
       (series_of data) =
     [(''No Preprocessing'', [''1.976'', ''1.093'', ''0.450'']),
      (''MelSEGAN + VMD + VAD'', [''2.046'', ''1.127'', ''0.455'']),
      (''MelSEGAN + VMD + DTW'', [''1.630'', ''1.092'', ''0.617'']),
      (''MelSEGAN + VMD + DTW + MAML'', [''1.385'', ''1.310'', ''0.555'']),
      (''MelSEGAN + VAD + VMD + MAML'', [''1.535'', ''1.184'', ''0.318'']),
      (''UNet + HiFigan + VMD + VAD'', [''1.541'', ''1.257'', ''0.486'']),
      (''UNet + HiFigan + VMD + DTW'', [''1.423'', ''1.312'', ''0.504''])]"
  by (simp add: series_of_def data_def the_metric_def entry_get_def dict_get_def metrics_def
        format_last_values[simplified])

lemma first_series_last_values:
  "map (\<lambda>m. last (the_metric (snd (hd (series_of data))) m)) metrics =
     map float_lit [1.975821, 1.093451, 0.450168]"
  by (simp add: series_of_def data_def the_metric_def entry_get_def dict_get_def metrics_def)

lemma expected_rows_layout: "list_all row_layout expected_rows"
  by code_simp

lemma expected_rows_names:
  "map (take 30) expected_rows = map (\<lambda>(name, v). ljust 30 name) (series_of data)"
  by (simp add: series_of_def data_def ljust_def expected_rows_def replicate_numeral_unfold)

lemma header_line_text:
  "header_line = ''Model                                Loss       PESQ       STOI''"
  by (simp add: header_line_def ljust_def rjust_def replicate_numeral_unfold)

section \<open>A sequence of the wrong length stops the plot loop\<close>

text \<open>
  The call of \<^verbatim>\<open>plot\<close> for a series whose sequence differs in length from the epochs
  raises, if an earlier call or the evaluation of an argument has not raised before.
\<close>

lemma epochs_of_Epochs: "dict_get d ''epoch'' = Inr (Epochs xs) \<Longrightarrow> epochs_of d = xs"
  by (simp add: epochs_of_def)

lemma plot_call_fails:
  assumes "entry_get v m = Inr ys" and "length ys \<noteq> length (epochs_of d)"
  shows "(case plot_args d m i v of
            Inl e \<Rightarrow> True
          | Inr (x, y, c, ls) \<Rightarrow> (case axes_plot ax x y name 2 c ls of Inl e \<Rightarrow> True | Inr ax' \<Rightarrow> False))"
  using assms
  by (auto simp: plot_args_def axes_plot_def epochs_of_Epochs
      split: sum.splits entry.splits prod.splits)

lemma plot_models_fails:
  assumes "(i, name, v) \<in> set items" and "name \<noteq> ''epoch''"
    and "entry_get v m = Inr ys" and "length ys \<noteq> length (epochs_of d)"
  shows "fst (plot_models d m items ax) \<noteq> None"
  using assms(1)
proof (induction items arbitrary: ax)
  case Nil
  then show ?case by simp
next
  case (Cons it items)
  obtain j nm w where it: "it = (j, nm, w)" by (cases it)
  show ?case
  proof (cases "it = (i, name, v)")
    case True
    then show ?thesis
      using plot_call_fails[OF assms(3,4), where i = i and ax = ax and name = name] assms(2)
      by (auto split: sum.splits prod.splits)
  next
    case False
    then have "(i, name, v) \<in> set items" using Cons.prems by simp
    then have "fst (plot_models d m items ax') \<noteq> None" for ax'
      by (rule Cons.IH)
    then show ?thesis
      unfolding it by (auto split: sum.splits prod.splits)
  qed
qed

lemma enumerate_member:
  assumes "(name, v) \<in> set d"
  shows "\<exists>i. (i, name, v) \<in> set (enumerate 0 d)"
proof -
  obtain i where "i < length d" "d ! i = (name, v)"
    using assms by (auto simp: in_set_conv_nth)
  then have "(i, name, v) \<in> set (enumerate 0 d)"
    by (simp add: in_set_enumerate_eq)
  then show ?thesis ..
qed

lemma plot_panels_fails:
  assumes "\<And>ax. fst (plot_models d m (enumerate 0 d) ax) \<noteq> None"
  shows "(idx, m, title, ylabel) \<in> set ps \<Longrightarrow> st_data st = d \<Longrightarrow> fst (plot_panels ps st) \<noteq> None"
proof (induction ps arbitrary: st)
  case Nil
  then show ?case by simp
next
  case (Cons p ps)
  obtain idx' m' t' y' where p: "p = (idx', m', t', y')" by (cases p)
  show ?case
  proof (cases "p = (idx, m, title, ylabel)")
    case True
    show ?thesis
    proof (cases "list_get (st_axes st) (int idx)")
      case (Inl err)
      then show ?thesis using True by simp
    next
      case (Inr ax)
      obtain r ax' where pm: "plot_models d m (enumerate 0 d) ax = (r, ax')"
        by (cases "plot_models d m (enumerate 0 d) ax")
      then have "r \<noteq> None" using assms[of ax] by simp
      then obtain err where "r = Some err" by blast
      then show ?thesis using True Inr pm Cons.prems(2) by simp
    qed
  next
    case False
    then have "(idx, m, title, ylabel) \<in> set ps" using Cons.prems(1) by simp
    then have "fst (plot_panels ps st') \<noteq> None" if "st_data st' = d" for st'
      using that by (rule Cons.IH)
    then show ?thesis
      unfolding p using Cons.prems(2)
      by (auto split: sum.splits prod.splits option.splits)
  qed
qed

lemma mismatch_render_fails:
  assumes "length_mismatch (st_data st)"
  shows "fst (render st) \<noteq> None"
proof -
  obtain name v where sv: "(name, v) \<in> set (series_of (st_data st))"
    and ex: "list_ex (\<lambda>m. case entry_get v m of
                             Inr ys \<Rightarrow> length ys \<noteq> length (epochs_of (st_data st))
                           | Inl e \<Rightarrow> False) metrics"
    using assms by (auto simp: length_mismatch_def list_ex_iff)
  have s: "(name, v) \<in> set (st_data st)" "name \<noteq> ''epoch''"
    using sv by (auto simp: series_of_def)
  obtain m where m1: "m \<in> set metrics"
    and c: "case entry_get v m of
              Inr ys \<Rightarrow> length ys \<noteq> length (epochs_of (st_data st))
            | Inl e \<Rightarrow> False"
    using ex by (auto simp: list_ex_iff)
  obtain ys where m2: "entry_get v m = Inr ys"
    and m3: "length ys \<noteq> length (epochs_of (st_data st))"
    using c by (cases "entry_get v m") auto
  obtain i where "(i, name, v) \<in> set (enumerate 0 (st_data st))"
    using enumerate_member[OF s(1)] by blast
  then have f: "fst (plot_models (st_data st) m (enumerate 0 (st_data st)) ax) \<noteq> None" for ax
    using s(2) m2 m3 by (rule plot_models_fails)
  obtain idx title ylabel where
    "(idx, m, title, ylabel) \<in> set (enumerate 0 (zip metrics (zip titles ylabels)))"
    using m1 unfolding panels_eq by (auto simp: metrics_def)
  then have "fst (plot_panels (enumerate 0 (zip metrics (zip titles ylabels)))
      (st\<lparr>st_suptitle := Some ''Training Metrics Comparison'', st_axes := replicate 3 new_axes\<rparr>)) \<noteq> None"
    using f by (intro plot_panels_fails[where d = "st_data st"]) simp_all
  then show ?thesis
    by (auto simp: render_def split: prod.splits option.splits)
qed


section \<open>Colours and line styles by position\<close>

text \<open>After the key at position \<open>k\<close>, the loop gives the next series the entries at \<open>k\<close>,
  \<open>k + 1\<close>, and so on, and completes only if the lists are long enough.\<close>

lemma list_get_nth: "list_get xs (int k) = Inr c \<Longrightarrow> k < length xs \<and> c = xs ! k"
  by (auto simp: list_get_def Let_def split: if_splits)

lemma plot_models_lines:
  "plot_models d m (enumerate (Suc k) ser) ax = (None, ax') \<Longrightarrow>
   ''epoch'' \<notin> fst ` set ser \<Longrightarrow>
     length ser \<le> length colors - k
     \<and> map line_look (ax_lines ax') =
         map line_look (ax_lines ax) @
         map (\<lambda>i. (fst (ser ! i), colors ! (k + i), line_styles ! (k + i))) [0..<length ser]"
proof (induction ser arbitrary: k ax)
  case Nil
  then show ?case by simp
next
  case (Cons s ser)
  obtain name v where s: "s = (name, v)" by (cases s)
  have ne: "name \<noteq> ''epoch''" and rest: "''epoch'' \<notin> fst ` set ser"
    using Cons.prems(2) s by auto
  from Cons.prems(1) obtain x y c ls ax1 where
    pa: "plot_args d m (Suc k) v = Inr (x, y, c, ls)" and
    ap: "axes_plot ax x y name 2 c ls = Inr ax1" and
    pm: "plot_models d m (enumerate (Suc (Suc k)) ser) ax1 = (None, ax')"
    using s ne by (auto split: sum.splits prod.splits)
  have c: "k < length colors \<and> c = colors ! k" and l: "ls = line_styles ! k"
    using pa by (auto simp: plot_args_def split: sum.splits dest: list_get_nth)
  have a1: "map line_look (ax_lines ax1) = map line_look (ax_lines ax) @ [(name, c, ls)]"
    using ap by (auto simp: axes_plot_def line_look_def split: entry.splits if_splits)
  have IH: "length ser \<le> length colors - Suc k
     \<and> map line_look (ax_lines ax') =
         map line_look (ax_lines ax1) @
         map (\<lambda>i. (fst (ser ! i), colors ! (Suc k + i), line_styles ! (Suc k + i))) [0..<length ser]"
    using pm rest by (rule Cons.IH)
  have "map (\<lambda>i. (fst ((s # ser) ! i), colors ! (k + i), line_styles ! (k + i))) [0..<length (s # ser)] =
        (name, colors ! k, line_styles ! k) #
        map (\<lambda>i. (fst (ser ! i), colors ! (Suc k + i), line_styles ! (Suc k + i))) [0..<length ser]"
    using s by (simp add: map_upt_Suc del: upt_Suc)
  moreover have "Suc (length ser) \<le> length colors - k"
    using IH c by arith
  ultimately show ?case using IH a1 c l by simp
qed

lemma render_completes:
  assumes "fst (render st) = None"
  shows "\<exists>a0 a1 a2.
     plot_models (st_data st) ''loss'' (enumerate 0 (st_data st)) new_axes = (None, a0)
     \<and> plot_models (st_data st) ''pesq'' (enumerate 0 (st_data st)) new_axes = (None, a1)
     \<and> plot_models (st_data st) ''stoi'' (enumerate 0 (st_data st)) new_axes = (None, a2)
     \<and> st_axes (snd (render st)) =
         [decorate ''Training Loss'' ''Loss'' a0, decorate ''PESQ Score'' ''PESQ'' a1,
          decorate ''STOI Score'' ''STOI'' a2]"
  using assms unfolding render_def panels_eq
  by (auto simp: list_get_def savefig_def numeral_3_eq_3 split: prod.splits option.splits)

lemma decorate_lines: "ax_lines (decorate title ylabel ax) = ax_lines ax"
  by (simp add: decorate_def axes_legend_def)


section \<open>The format of a number and of a row, for every value\<close>

declare str_int.simps [simp del]

lemma digit_char_is_digit: "0 \<le> d \<Longrightarrow> d < 10 \<Longrightarrow> is_digit (digit_char d)"
proof -
  assume "0 \<le> d" "d < 10"
  then have "nat d < length ''0123456789''" by simp
  then show ?thesis unfolding is_digit_def digit_char_def by (rule nth_mem)
qed

lemma str_int_digits: "0 \<le> n \<Longrightarrow> str_int n \<noteq> [] \<and> list_all is_digit (str_int n)"
proof (induction n rule: str_int.induct)
  case (1 n)
  show ?case
  proof (cases "n < 10")
    case True
    then show ?thesis using 1(2) by (subst (1 2) str_int.simps) (simp add: digit_char_is_digit)
  next
    case False
    then have "str_int (n div 10) \<noteq> [] \<and> list_all is_digit (str_int (n div 10))"
      using 1 by simp
    moreover have "is_digit (digit_char (n mod 10))"
      by (rule digit_char_is_digit) simp_all
    ultimately show ?thesis using False by (subst (1 2) str_int.simps) simp
  qed
qed

lemma str_int_length3: "0 \<le> n \<Longrightarrow> n < 1000 \<Longrightarrow> length (str_int n) \<le> 3"
proof -
  assume n: "0 \<le> n" "n < 1000"
  have one: "length (str_int k) = 1" if "k < 10" for k
    using that by (subst str_int.simps) simp
  have two: "length (str_int k) \<le> 2" if "k < 100" for k
  proof (cases "k < 10")
    case True
    then show ?thesis using one by simp
  next
    case False
    have "k div 10 < 10" using that by simp
    then show ?thesis using False one[of "k div 10"] by (subst str_int.simps) simp
  qed
  show ?thesis
  proof (cases "n < 10")
    case True
    then show ?thesis using one by simp
  next
    case False
    have "n div 10 < 100" using n by simp
    then show ?thesis using False two[of "n div 10"] by (subst str_int.simps) simp
  qed
qed

lemma round_half_even_nonneg: "0 \<le> q \<Longrightarrow> 0 \<le> round_half_even q"
  by (auto simp: round_half_even_def Let_def)

lemma is_digit_not_special: "is_digit c \<Longrightarrow> c \<noteq> CHR ''-'' \<and> c \<noteq> CHR ''.'' \<and> c \<noteq> CHR '' ''"
  by (auto simp: is_digit_def)

lemma takeWhile_digits:
  "list_all is_digit ds \<Longrightarrow> takeWhile is_digit (ds @ CHR ''.'' # r) = ds"
  using is_digit_not_special[of "CHR ''.''"] by (induction ds) auto

lemma dropWhile_digits:
  "list_all is_digit ds \<Longrightarrow> dropWhile is_digit (ds @ CHR ''.'' # r) = CHR ''.'' # r"
  using is_digit_not_special[of "CHR ''.''"] by (induction ds) auto

lemma fixed3_number:
  assumes "ip \<noteq> []" "list_all is_digit ip" "list_all is_digit fp" "length fp = 3"
  shows "fixed3 (ip @ CHR ''.'' # fp)" "fixed3 (CHR ''-'' # ip @ CHR ''.'' # fp)"
proof -
  have "hd ip \<noteq> CHR ''-''"
    using assms(1,2) is_digit_not_special[of "hd ip"] by (cases ip) auto
  then have "hd (ip @ CHR ''.'' # fp) \<noteq> CHR ''-''"
    using assms(1) by simp
  then show "fixed3 (ip @ CHR ''.'' # fp)"
    using assms by (simp add: fixed3_def takeWhile_digits dropWhile_digits)
  show "fixed3 (CHR ''-'' # ip @ CHR ''.'' # fp)"
    using assms by (simp add: fixed3_def takeWhile_digits dropWhile_digits)
qed

lemma format_3f_shape:
  "\<exists>ip fp. ip \<noteq> [] \<and> list_all is_digit ip \<and> list_all is_digit fp \<and> length fp = 3
     \<and> format_3f (Finite q) = (if q < 0 then ''-'' else []) @ ip @ CHR ''.'' # fp"
proof -
  define r where "r = round_half_even (\<bar>q\<bar> * 1000)"
  have r: "0 \<le> r" unfolding r_def by (rule round_half_even_nonneg) simp
  define frac where "frac = str_int (r mod 1000)"
  have f1: "list_all is_digit frac" and f2: "length frac \<le> 3"
    unfolding frac_def using str_int_digits[of "r mod 1000"] str_int_length3[of "r mod 1000"]
    by simp_all
  have i1: "str_int (r div 1000) \<noteq> []" and i2: "list_all is_digit (str_int (r div 1000))"
    using str_int_digits[of "r div 1000"] r by (simp_all add: pos_imp_zdiv_nonneg_iff)
  have z: "is_digit CHR ''0''" by (simp add: is_digit_def)
  have "format_3f (Finite q) = (if q < 0 then ''-'' else []) @ str_int (r div 1000) @
      CHR ''.'' # (replicate (3 - length frac) CHR ''0'' @ frac)"
    by (simp add: format_3f_def Let_def r_def frac_def)
  moreover have "list_all is_digit (replicate (3 - length frac) CHR ''0'' @ frac)"
    using f1 z by (auto simp: list_all_iff)
  moreover have "length (replicate (3 - length frac) CHR ''0'' @ frac) = 3"
    using f2 by simp
  ultimately show ?thesis using i1 i2 by blast
qed

lemma format_3f_fixed3: "is_finite x \<Longrightarrow> fixed3 (format_3f x)"
proof (cases x)
  case (Finite q)
  obtain ip fp where s: "ip \<noteq> []" "list_all is_digit ip" "list_all is_digit fp" "length fp = 3"
    "format_3f (Finite q) = (if q < 0 then ''-'' else []) @ ip @ CHR ''.'' # fp"
    using format_3f_shape[of q] by blast
  show ?thesis
    using fixed3_number[OF s(1-4)] s(5) Finite by (cases "q < 0") simp_all
qed simp_all

lemma format_3f_no_space:
  "is_finite x \<Longrightarrow> format_3f x \<noteq> [] \<and> hd (format_3f x) \<noteq> CHR '' ''"
proof (cases x)
  case (Finite q)
  obtain ip fp where s: "ip \<noteq> []" "list_all is_digit ip"
    "format_3f (Finite q) = (if q < 0 then ''-'' else []) @ ip @ CHR ''.'' # fp"
    using format_3f_shape[of q] by blast
  have "hd ip \<noteq> CHR '' ''"
    using s(1,2) is_digit_not_special[of "hd ip"] by (cases ip) auto
  then show ?thesis using s Finite by (cases "q < 0") simp_all
qed simp_all

lemma dropWhile_rjust:
  "s \<noteq> [] \<and> hd s \<noteq> CHR '' '' \<Longrightarrow> dropWhile (\<lambda>c. c = CHR '' '') (rjust w s) = s"
  by (cases s) (simp_all add: rjust_def dropWhile_append3)

lemma right_aligned_rjust:
  "is_finite x \<Longrightarrow>
     right_aligned (max 10 (length (format_3f x))) (rjust 10 (format_3f x))"
  using format_3f_fixed3[of x] dropWhile_rjust[OF format_3f_no_space, of x 10]
  by (auto simp: right_aligned_def rjust_def)

lemma list_get_last: "list_get ys (- 1) = Inr x \<Longrightarrow> x = last ys"
proof -
  assume a: "list_get ys (- 1) = Inr x"
  then have ne: "ys \<noteq> []"
    by (auto simp: list_get_def)
  have "nat (- 1 + int (length ys)) = length ys - 1"
    by arith
  then have "x = ys ! (length ys - 1)"
    using a ne by (auto simp: list_get_def Let_def split: if_splits)
  then show ?thesis using ne by (simp add: last_conv_nth)
qed

lemma last_value_last: "last_value v m = Inr x \<Longrightarrow> x = last (the_metric v m)"
  by (auto simp: last_value_def the_metric_def split: sum.splits dest: list_get_last)

lemma row_values_table_row:
  "row_values v = Inr (l, p, t) \<Longrightarrow> row_text name l p t = table_row (name, v)"
  by (auto simp: row_values_def row_text_def table_row_def metrics_def
      split: sum.splits dest!: last_value_last)

lemma print_rows_completes:
  "fst (print_rows d st) = None \<Longrightarrow>
     st_stdout (snd (print_rows d st)) = st_stdout st @ unlines (map table_row (series_of d))"
proof (induction d arbitrary: st)
  case Nil
  then show ?case by (simp add: series_of_def unlines_def)
next
  case (Cons a d)
  obtain name v where a: "a = (name, v)" by (cases a)
  show ?case
  proof (cases "name = ''epoch''")
    case True
    then show ?thesis using Cons a by (simp add: series_of_def)
  next
    case False
    then obtain l p t where r: "row_values v = Inr (l, p, t)"
      and c: "fst (print_rows d (py_print (row_text name l p t) st)) = None"
      using Cons.prems a by (auto split: sum.splits prod.splits)
    have "st_stdout (snd (print_rows d (py_print (row_text name l p t) st))) =
          st_stdout (py_print (row_text name l p t) st) @ unlines (map table_row (series_of d))"
      using c by (rule Cons.IH)
    then show ?thesis
      using False a r row_values_table_row[OF r, of name]
      by (simp add: series_of_def py_print_def unlines_def)
  qed
qed

lemma report_completes:
  assumes "fst (report st) = None"
  shows "printed st (snd (report st)) =
     unlines ([[], ''Final Metrics (at Epoch 30):'', rule_line, header_line, rule_line]
              @ map table_row (series_of (st_data st)) @ [rule_line])"
proof -
  let ?s4 = "py_print rule_line (py_print header_line (py_print rule_line (py_print title_text st)))"
  have c: "fst (print_rows (st_data st) ?s4) = None"
    using assms by (auto simp: report_def split: prod.splits option.splits)
  have "st_stdout (snd (print_rows (st_data st) ?s4)) =
        st_stdout ?s4 @ unlines (map table_row (series_of (st_data st)))"
    using c by (rule print_rows_completes)
  then show ?thesis
    using c
    by (auto simp: report_def printed_def py_print_def title_text_def unlines_def
        split: prod.splits option.splits)
qed

lemma row_layout_parts:
  assumes "length a = 30" "right_aligned 10 f1" "right_aligned 10 f2" "right_aligned 10 f3"
  shows "row_layout (a @ CHR '' '' # f1 @ CHR '' '' # f2 @ CHR '' '' # f3)"
proof -
  have l: "length f1 = 10" "length f2 = 10" "length f3 = 10"
    using assms by (simp_all add: right_aligned_def)
  show ?thesis
    using assms l by (simp add: row_layout_def nth_append)
qed

lemma fits_field:
  assumes "fits x"
  shows "right_aligned 10 (rjust 10 (format_3f x))"
proof -
  have "max 10 (length (format_3f x)) = 10"
    using assms by (simp add: fits_def)
  then show ?thesis
    using right_aligned_rjust[of x] assms by (simp add: fits_def)
qed

lemma row_layout_table_row:
  assumes "length name \<le> 30" "list_all (\<lambda>m. fits (last (the_metric v m))) metrics"
  shows "row_layout (table_row (name, v))"
proof -
  have "length (ljust 30 name) = 30"
    using assms(1) by (simp add: ljust_def)
  then show ?thesis
    using assms(2)
    by (simp add: table_row_def metrics_def row_layout_parts fits_field)
qed

section \<open>The properties\<close>

text \<open>
  C9. Neither the Renderer nor the Reporter changes the dataset: after each of them, and
  after the whole script, on success and on an exception alike, the variable \<^verbatim>\<open>data\<close>
  holds the dictionary it held before, with every metric sequence and the epoch sequence;
  after \<open>main\<close> it holds the literal of the source.
\<close>

theorem dataset_is_not_mutated:
  "st_data (snd (render st)) = st_data st
   \<and> st_data (snd (report st)) = st_data st
   \<and> st_data (snd (script st)) = st_data st
   \<and> st_data (snd (main st)) = data"
proof -
  obtain e axs fs where "render st = (e, st\<lparr>st_suptitle := Some ''Training Metrics Comparison'',
      st_axes := axs, st_files := fs @ st_files st\<rparr>)"
    using render_effect[of "st_data st"] by blast
  moreover obtain e' t where "report st = (e', st\<lparr>st_stdout := st_stdout st @ title_text @ [CHR 0x0A] @ t\<rparr>)"
    using report_appends[of "st_data st"] by blast
  moreover have "st_data (snd (script s)) = st_data s" for s
  proof -
    obtain e2 axs2 fs2 t2 where "script s = (e2, s\<lparr>st_suptitle := Some ''Training Metrics Comparison'',
        st_axes := axs2, st_files := fs2 @ st_files s, st_stdout := st_stdout s @ t2\<rparr>)"
      using script_effect[of "st_data s"] by blast
    then show ?thesis by simp
  qed
  ultimately show ?thesis by (simp add: main_def)
qed

text \<open>
  C10. Whatever the dataset, the text the Reporter writes begins with an empty line and
  the line \<^verbatim>\<open>Final Metrics (at Epoch 30):\<close>. The number 30 is part of the string literal
  of the first \<^verbatim>\<open>print\<close>; it is not read from the epoch sequence.
\<close>

theorem report_title_is_fixed:
  "prefix (st_stdout st @ CHR 0x0A # ''Final Metrics (at Epoch 30):'' @ [CHR 0x0A])
          (st_stdout (snd (report st)))"
proof -
  obtain e t where "report st = (e, st\<lparr>st_stdout := st_stdout st @ title_text @ [CHR 0x0A] @ t\<rparr>)"
    using report_appends[of "st_data st"] by blast
  then show ?thesis by (simp add: title_text_def prefix_def)
qed

text \<open>
  C3, as stated, fails: the loop has no modulo. It reads \<^verbatim>\<open>colors[i-1]\<close> with \<open>i\<close> the
  position of the key in the dictionary. With eight series the eighth has \<open>i - 1 = 7\<close>,
  the Renderer raises \<^verbatim>\<open>IndexError\<close> and writes no file, where the rule gives series 7 the
  colour 0. With \<^verbatim>\<open>'epoch'\<close> as the second key, series 0 has \<open>i - 1 = -1\<close> and is drawn
  with the last colour and the last line style.
\<close>

theorem no_wrap_around:
  "length (series_of eight_series) = 8
   \<and> fst (render (initial\<lparr>st_data := eight_series\<rparr>)) = Some IndexError
   \<and> st_files (snd (render (initial\<lparr>st_data := eight_series\<rparr>))) = []
   \<and> map fst (series_of epoch_second) = [''A'', ''B'']
   \<and> fst (render (initial\<lparr>st_data := epoch_second\<rparr>)) = None
   \<and> map line_look (ax_lines (hd (st_axes (snd (render (initial\<lparr>st_data := epoch_second\<rparr>)))))) =
       [(''A'', ''#e377c2'', ''--''), (''B'', ''#ff7f0e'', ''-'')]"
  by code_simp

text \<open>
  C3, amended. In a dataset whose first key is \<^verbatim>\<open>'epoch'\<close>, when the Renderer completes,
  there are at most as many series as colours, and in every panel the series at position
  \<open>i\<close>, counted from 0 in insertion order, is drawn with \<open>colors[i]\<close> and
  \<open>line_styles[i]\<close>, which for such \<open>i\<close> are the entries at \<open>i mod len\<close>.
\<close>

theorem series_style_when_epoch_first:
  assumes "st_data st = (''epoch'', e) # ser"
    and "''epoch'' \<notin> fst ` set ser"
    and "fst (render st) = None"
  shows "length ser \<le> length colors
     \<and> map (\<lambda>ax. map line_look (ax_lines ax)) (st_axes (snd (render st))) =
         replicate 3
           (map (\<lambda>i. (fst (ser ! i), colors ! (i mod length colors),
                       line_styles ! (i mod length line_styles)))
                [0..<length ser])"
proof -
  obtain a0 a1 a2 where
    p0: "plot_models (st_data st) ''loss'' (enumerate 0 (st_data st)) new_axes = (None, a0)" and
    p1: "plot_models (st_data st) ''pesq'' (enumerate 0 (st_data st)) new_axes = (None, a1)" and
    p2: "plot_models (st_data st) ''stoi'' (enumerate 0 (st_data st)) new_axes = (None, a2)" and
    ax: "st_axes (snd (render st)) =
         [decorate ''Training Loss'' ''Loss'' a0, decorate ''PESQ Score'' ''PESQ'' a1,
          decorate ''STOI Score'' ''STOI'' a2]"
    using render_completes[OF assms(3)] by blast
  have skip: "plot_models (st_data st) m (enumerate 0 (st_data st)) new_axes =
              plot_models (st_data st) m (enumerate (Suc 0) ser) new_axes" for m
    by (simp add: assms(1))
  have look: "length ser \<le> length colors - 0
     \<and> map line_look (ax_lines a) =
         map line_look (ax_lines new_axes) @
         map (\<lambda>i. (fst (ser ! i), colors ! (0 + i), line_styles ! (0 + i))) [0..<length ser]"
    if "plot_models (st_data st) m (enumerate 0 (st_data st)) new_axes = (None, a)" for m a
    using that assms(2) unfolding skip by (rule plot_models_lines)
  have n: "length ser \<le> length colors"
    using look[OF p0] by simp
  have same: "length line_styles = length colors"
    by (simp add: colors_def line_styles_def)
  have idle: "map (\<lambda>i. (fst (ser ! i), colors ! (i mod length colors),
                       line_styles ! (i mod length line_styles))) [0..<length ser] =
              map (\<lambda>i. (fst (ser ! i), colors ! (0 + i), line_styles ! (0 + i))) [0..<length ser]"
    using n by (simp add: same)
  show ?thesis
    using n look[OF p0] look[OF p1] look[OF p2]
    by (simp add: ax decorate_lines idle new_axes_def numeral_3_eq_3)
qed

text \<open>The literal data: \<^verbatim>\<open>'epoch'\<close> is the first key, the Renderer completes, there are seven
  series; series 0, \<^verbatim>\<open>No Preprocessing\<close>, has \<^verbatim>\<open>#1f77b4\<close> and a solid line, series 5 and 6,
  the two UNet variants, are dashed.\<close>

theorem series_style_when_epoch_first_witness:
  "st_data (initial\<lparr>st_data := data\<rparr>) = (''epoch'', Epochs [1, 5, 10, 15, 20, 25, 30]) # tl data
   \<and> ''epoch'' \<notin> fst ` set (tl data)
   \<and> fst (render (initial\<lparr>st_data := data\<rparr>)) = None
   \<and> length (tl data) = 7
   \<and> map (\<lambda>ax. map line_look (ax_lines ax))
          (st_axes (snd (render (initial\<lparr>st_data := data\<rparr>)))) =
       replicate 3
         [(''No Preprocessing'', ''#1f77b4'', ''-''), (''MelSEGAN + VMD + VAD'', ''#ff7f0e'', ''-''),
          (''MelSEGAN + VMD + DTW'', ''#2ca02c'', ''-''),
          (''MelSEGAN + VMD + DTW + MAML'', ''#d62728'', ''-''),
          (''MelSEGAN + VAD + VMD + MAML'', ''#9467bd'', ''-''),
          (''UNet + HiFigan + VMD + VAD'', ''#8c564b'', ''--''),
          (''UNet + HiFigan + VMD + DTW'', ''#e377c2'', ''--'')]"
proof -
  have h1: "st_data (initial\<lparr>st_data := data\<rparr>) =
      (''epoch'', Epochs [1, 5, 10, 15, 20, 25, 30]) # tl data"
    by (simp add: data_def)
  have h2: "''epoch'' \<notin> fst ` set (tl data)"
    by (simp add: data_def)
  have h3: "fst (render (initial\<lparr>st_data := data\<rparr>)) = None"
    by (simp add: render_data)
  have n: "length (tl data) = 7"
    by (simp add: data_def)
  have names: "map (\<lambda>i. (fst (tl data ! i), colors ! (i mod length colors),
                       line_styles ! (i mod length line_styles))) [0..<length (tl data)] =
         [(''No Preprocessing'', ''#1f77b4'', ''-''), (''MelSEGAN + VMD + VAD'', ''#ff7f0e'', ''-''),
          (''MelSEGAN + VMD + DTW'', ''#2ca02c'', ''-''),
          (''MelSEGAN + VMD + DTW + MAML'', ''#d62728'', ''-''),
          (''MelSEGAN + VAD + VMD + MAML'', ''#9467bd'', ''-''),
          (''UNet + HiFigan + VMD + VAD'', ''#8c564b'', ''--''),
          (''UNet + HiFigan + VMD + DTW'', ''#e377c2'', ''--'')]"
    unfolding n by (simp add: data_def colors_def line_styles_def upt_rec)
  show ?thesis
    using series_style_when_epoch_first[OF h1 h2 h3] h1 h2 h3 n unfolding names
    by (intro conjI) simp_all
qed

text \<open>
  C4, as stated, fails: in the figure of the script the first line of the first panel is
  that of \<^verbatim>\<open>No Preprocessing\<close>, and its colour and line style are not the last entries
  of \<open>colors\<close> and \<open>line_styles\<close>.
\<close>

theorem first_series_not_last_entry:
  "line_label (hd (ax_lines (hd (st_axes (snd (main initial)))))) = ''No Preprocessing''
   \<and> line_color (hd (ax_lines (hd (st_axes (snd (main initial)))))) \<noteq> last colors
   \<and> line_style (hd (ax_lines (hd (st_axes (snd (main initial)))))) \<noteq> last line_styles"
proof -
  have "map (\<lambda>l. (line_label l, line_color l, line_style l)) (ax_lines (hd (st_axes (snd (main initial))))) =
        map (\<lambda>l. (line_label l, line_color l, line_style l)) (expected_lines ''loss'')"
    by (simp add: main_axes expected_figure_def expected_panel_def)
  then have "(\<lambda>l. (line_label l, line_color l, line_style l)) (hd (ax_lines (hd (st_axes (snd (main initial)))))) =
        (''No Preprocessing'', ''#1f77b4'', ''-'')"
    unfolding expected_lines_styles by (cases "ax_lines (hd (st_axes (snd (main initial))))") auto
  then show ?thesis by (simp add: colors_def line_styles_def)
qed

text \<open>
  C4, amended. The first item of \<^verbatim>\<open>data.items()\<close> is the key \<^verbatim>\<open>'epoch'\<close>, which the loop
  skips. The index \<open>i - 1\<close> is \<open>-1\<close>, the last entry, only at that position 0; the
  first series has \<open>i = 1\<close> and is given the first colour and the first line style, in
  every panel, and the last series is given the last ones.
\<close>

theorem first_series_first_entry:
  "fst (hd data) = ''epoch''
   \<and> list_get colors (int 0 - 1) = Inr (last colors)
   \<and> list_get colors (int 1 - 1) = Inr (hd colors)
   \<and> list_get line_styles (int 1 - 1) = Inr (hd line_styles)
   \<and> map (\<lambda>ax. (\<lambda>l. (line_label l, line_color l, line_style l)) (hd (ax_lines ax)))
         (st_axes (snd (main st))) =
       replicate 3 (fst (hd (series_of data)), hd colors, hd line_styles)
   \<and> map (\<lambda>ax. (\<lambda>l. (line_label l, line_color l, line_style l)) (last (ax_lines ax)))
         (st_axes (snd (main st))) =
       replicate 3 (fst (last (series_of data)), last colors, last line_styles)"
proof -
  let ?f = "\<lambda>l. (line_label l, line_color l, line_style l)"
  have ne: "expected_lines m \<noteq> []" for m
    using expected_lines_styles[of m] by auto
  have h: "?f (hd (expected_lines m)) = (''No Preprocessing'', ''#1f77b4'', ''-'')" for m
  proof -
    have "?f (hd (expected_lines m)) = hd (map ?f (expected_lines m))"
      using ne[of m] by (simp add: hd_map)
    then show ?thesis unfolding expected_lines_styles by simp
  qed
  have l: "?f (last (expected_lines m)) = (''UNet + HiFigan + VMD + DTW'', ''#e377c2'', ''--'')" for m
  proof -
    have "?f (last (expected_lines m)) = last (map ?f (expected_lines m))"
      using ne[of m] by (simp add: last_map)
    then show ?thesis unfolding expected_lines_styles by simp
  qed
  have s: "series_of data \<noteq> []" using series_of_data_names by auto
  have "fst (hd (series_of data)) = hd (map fst (series_of data))"
    using s by (simp add: hd_map)
  then have n1: "fst (hd (series_of data)) = ''No Preprocessing''"
    unfolding series_of_data_names by simp
  have "fst (last (series_of data)) = last (map fst (series_of data))"
    using s by (simp add: last_map)
  then have n2: "fst (last (series_of data)) = ''UNet + HiFigan + VMD + DTW''"
    unfolding series_of_data_names by simp
  have d: "fst (hd data) = ''epoch''" by (simp add: data_def)
  have c: "list_get colors (int 0 - 1) = Inr (last colors)"
    "list_get colors (int 1 - 1) = Inr (hd colors)"
    "list_get line_styles (int 1 - 1) = Inr (hd line_styles)"
    by (simp_all add: list_get_def colors_def line_styles_def)
  have a: "map (\<lambda>ax. ?f (hd (ax_lines ax))) (st_axes (snd (main st))) =
       replicate 3 (fst (hd (series_of data)), hd colors, hd line_styles)"
    using h by (simp add: n1 main_axes expected_figure_def expected_panel_def numeral_3_eq_3
          colors_def line_styles_def)
  have b: "map (\<lambda>ax. ?f (last (ax_lines ax))) (st_axes (snd (main st))) =
       replicate 3 (fst (last (series_of data)), last colors, last line_styles)"
    using l by (simp add: n2 main_axes expected_figure_def expected_panel_def numeral_3_eq_3
          colors_def line_styles_def)
  show ?thesis using d c a b by blast
qed

text \<open>
  C5, as stated, fails: the epochs of the literal data range from 1 to 30, and the x-axis
  of the first panel ranges from 0 to 30.
\<close>

theorem xlim_is_not_epoch_range:
  "epoch_range data = Some (1, 30)
   \<and> ax_xlim (hd (st_axes (snd (main initial)))) = Some (0, 30)
   \<and> ax_xlim (hd (st_axes (snd (main initial)))) \<noteq> epoch_range data"
  by (simp add: epoch_range_data main_axes expected_figure_def expected_panel_def)

text \<open>
  C5, amended. Whatever the dataset, when the Renderer completes, the x-axis of each of the
  three panels ranges from 0 to 30: the range is the pair of constants of
  \<^verbatim>\<open>set_xlim(0, 30)\<close>, not the least and greatest epoch. (For the literal data the upper
  bound is the greatest epoch, 30; the lower bound 0 is below the least epoch, 1.)
\<close>

theorem xlim_is_constant:
  "fst (render st) = None \<Longrightarrow>
     map ax_xlim (st_axes (snd (render st))) = replicate 3 (Some (0, 30))"
  unfolding render_def panels_eq
  by (auto simp: list_get_def decorate_def axes_legend_def savefig_def numeral_3_eq_3
      split: prod.splits option.splits)

text \<open>The literal data: the Renderer completes, every panel ranges from 0 to 30, the
  epochs from 1 to 30.\<close>

theorem xlim_is_constant_witness:
  "fst (render (initial\<lparr>st_data := data\<rparr>)) = None
   \<and> map ax_xlim (st_axes (snd (render (initial\<lparr>st_data := data\<rparr>)))) = replicate 3 (Some (0, 30))
   \<and> epoch_range data = Some (1, 30)"
  using xlim_is_constant[of "initial\<lparr>st_data := data\<rparr>"]
  by (simp add: render_data epoch_range_data)

text \<open>
  C8. Two runs of the script on the same dataset (with the colours and line styles of the
  source) show the same: the same exception or none, the same text printed, the same file
  written, the same title and the same panels, with every line's data, label, colour and
  style, every legend and every axis range. What was printed or written before a run, and
  the figure left by an earlier run, have no influence.
\<close>

theorem runs_agree:
  "st_data s1 = st_data s2 \<Longrightarrow> outcome s1 = outcome s2"
proof -
  assume same: "st_data s1 = st_data s2"
  obtain e axs fs t where S: "\<And>st. st_data st = st_data s1 \<Longrightarrow>
      script st = (e, st\<lparr>st_suptitle := Some ''Training Metrics Comparison'', st_axes := axs,
                          st_files := fs @ st_files st, st_stdout := st_stdout st @ t\<rparr>)"
    using script_effect[of "st_data s1"] by blast
  have "outcome st = (e, t, fs, Some ''Training Metrics Comparison'', axs)"
    if "st_data st = st_data s1" for st
    using S[OF that] by (simp add: outcome_def printed_def written_def)
  then show ?thesis using same by simp
qed

text \<open>Two runs on the literal data, the second after some earlier output and an
  earlier file.\<close>

theorem runs_agree_witness:
  "st_data (initial\<lparr>st_data := data\<rparr>) =
     st_data (initial\<lparr>st_data := data, st_files := [(''old.png'', None, [])],
                      st_stdout := ''earlier output''\<rparr>)
   \<and> outcome (initial\<lparr>st_data := data\<rparr>) =
     outcome (initial\<lparr>st_data := data, st_files := [(''old.png'', None, [])],
                      st_stdout := ''earlier output''\<rparr>)"
  using runs_agree[of "initial\<lparr>st_data := data\<rparr>"
      "initial\<lparr>st_data := data, st_files := [(''old.png'', None, [])], st_stdout := ''earlier output''\<rparr>"]
  by simp

text \<open>
  C7. The literal data satisfies the invariant of the data model: the epoch sequence is
  \<open>[1, 5, 10, 15, 20, 25, 30]\<close>, of length 7 and strictly increasing; there are seven
  series, and in each of them \<^verbatim>\<open>loss\<close>, \<^verbatim>\<open>pesq\<close> and \<^verbatim>\<open>stoi\<close> are present, have the length
  of the epoch sequence, and hold finite floats only.
\<close>

theorem data_invariant:
  "epochs_of data = [1, 5, 10, 15, 20, 25, 30]
   \<and> length (epochs_of data) = 7
   \<and> sorted_wrt (<) (epochs_of data)
   \<and> length (series_of data) = 7
   \<and> list_all (\<lambda>(name, v). series_ok (length (epochs_of data)) v) (series_of data)"
proof -
  have e: "epochs_of data = [1, 5, 10, 15, 20, 25, 30]"
    by (simp add: epochs_of_def dict_get_def data_def)
  have n: "length (series_of data) = 7"
    using arg_cong[OF series_of_data_names, of length] by simp
  have fin: "is_finite (float_lit q)" if "\<bar>q\<bar> < 4" for q
    using that by (intro float_lit_finite[of q 2]) simp_all
  have l: "length (epochs_of data) = 7"
    unfolding e by simp
  have srt: "sorted_wrt (<) (epochs_of data)"
    unfolding e by simp
  have s: "list_all (\<lambda>(name, v). series_ok (length (epochs_of data)) v) (series_of data)"
    unfolding l
    by (simp add: series_of_def data_def series_ok_def metrics_def entry_get_def dict_get_def fin)
  show ?thesis using e l srt n s by (intro conjI)
qed

text \<open>
  C1. On the literal data the script completes, and what it prints is the title, the rule,
  the header, the rule, one row per series in insertion order, and the rule. There are seven
  series. In the row of a series, after its name, each of the three fields is the last
  element of the metric's sequence in the format \<^verbatim>\<open>.3f\<close>, right-aligned. The row of
  \<^verbatim>\<open>No Preprocessing\<close> shows 1.976, 1.093 and 0.450, the renderings of the floats
  1.975821, 1.093451 and 0.450168, the last elements of its three sequences.
\<close>

theorem summary_rows_show_last_values:
  "fst (main st) = None
   \<and> printed st (snd (main st)) =
       unlines ([[], ''Final Metrics (at Epoch 30):'', rule_line, header_line, rule_line]
         @ map (\<lambda>(name, v). ljust 30 name @
                  concat (map (\<lambda>m. CHR '' '' # rjust 10 (format_3f (last (the_metric v m))))
                              metrics))
               (series_of data)
         @ [rule_line])
   \<and> length (series_of data) = 7
   \<and> map (\<lambda>(name, v). (name, map (\<lambda>m. format_3f (last (the_metric v m))) metrics))
          (series_of data) =
       [(''No Preprocessing'', [''1.976'', ''1.093'', ''0.450'']),
        (''MelSEGAN + VMD + VAD'', [''2.046'', ''1.127'', ''0.455'']),
        (''MelSEGAN + VMD + DTW'', [''1.630'', ''1.092'', ''0.617'']),
        (''MelSEGAN + VMD + DTW + MAML'', [''1.385'', ''1.310'', ''0.555'']),
        (''MelSEGAN + VAD + VMD + MAML'', [''1.535'', ''1.184'', ''0.318'']),
        (''UNet + HiFigan + VMD + VAD'', [''1.541'', ''1.257'', ''0.486'']),
        (''UNet + HiFigan + VMD + DTW'', [''1.423'', ''1.312'', ''0.504''])]
   \<and> map (\<lambda>m. last (the_metric (snd (hd (series_of data))) m)) metrics =
       map float_lit [1.975821, 1.093451, 0.450168]"
proof -
  have n: "length (series_of data) = 7"
    using arg_cong[OF series_of_data_names, of length] by simp
  have e: "fst (main st) = None"
    by (simp add: main_data)
  show ?thesis
    unfolding rows_formula
    using e n main_printed[of st] rows_values first_series_last_values
    by (intro conjI)
qed

text \<open>
  C6, as stated, fails: the columns have a least width, not a fixed one. A name of 47
  characters and a number of 12 are printed in full, in rows of 80 and 65 characters, which
  do not have the layout of 63 columns.
\<close>

theorem rows_wider_than_layout:
  "fst (report (initial\<lparr>st_data := wide_rows\<rparr>)) = None
   \<and> st_stdout (snd (report (initial\<lparr>st_data := wide_rows\<rparr>))) =
       unlines [[], ''Final Metrics (at Epoch 30):'', rule_line, header_line, rule_line,
                ''A configuration with a rather long display name      0.500      1.000      0.500'',
                ''B                              12345678.250      1.000      0.500'',
                rule_line]
   \<and> map length
         [''A configuration with a rather long display name      0.500      1.000      0.500'',
          ''B                              12345678.250      1.000      0.500''] = [80, 65]
   \<and> \<not> row_layout ''A configuration with a rather long display name      0.500      1.000      0.500''
   \<and> \<not> row_layout ''B                              12345678.250      1.000      0.500''"
  by code_simp


text \<open>
  C6, amended. Whatever the dataset, when the Reporter completes, the text it prints is an
  empty line and the title, a rule of 80 dashes, the header with the column titles
  \<^verbatim>\<open>Model\<close>, \<^verbatim>\<open>Loss\<close>, \<^verbatim>\<open>PESQ\<close>, \<^verbatim>\<open>STOI\<close>, a rule, one row per series in the order of the
  dataset, and a rule. Every finite number is written with exactly three digits after the
  point and right-aligned in a field of 10 characters, or of its own length when that is
  more. A row whose name has at most 30 characters and whose three values fit their
  columns has the fixed layout of 63 columns.
\<close>

theorem table_layout:
  assumes "fst (report st) = None"
  shows "printed st (snd (report st)) =
       unlines ([[], ''Final Metrics (at Epoch 30):'', replicate 80 CHR ''-'',
                 ''Model                                Loss       PESQ       STOI'',
                 replicate 80 CHR ''-'']
                @ map table_row (series_of (st_data st)) @ [replicate 80 CHR ''-''])
     \<and> (\<forall>x. is_finite x \<longrightarrow>
            fixed3 (format_3f x)
            \<and> right_aligned (max 10 (length (format_3f x))) (rjust 10 (format_3f x)))
     \<and> (\<forall>(name, v) \<in> set (series_of (st_data st)).
            length name \<le> 30 \<and> list_all (\<lambda>m. fits (last (the_metric v m))) metrics
            \<longrightarrow> row_layout (table_row (name, v)))"
proof -
  have p: "printed st (snd (report st)) =
       unlines ([[], ''Final Metrics (at Epoch 30):'', replicate 80 CHR ''-'',
                 ''Model                                Loss       PESQ       STOI'',
                 replicate 80 CHR ''-'']
                @ map table_row (series_of (st_data st)) @ [replicate 80 CHR ''-''])"
    using report_completes[OF assms] unfolding header_line_text rule_line_def .
  have f: "\<forall>x. is_finite x \<longrightarrow>
            fixed3 (format_3f x)
            \<and> right_aligned (max 10 (length (format_3f x))) (rjust 10 (format_3f x))"
    using format_3f_fixed3 right_aligned_rjust by blast
  have r: "\<forall>(name, v) \<in> set (series_of (st_data st)).
            length name \<le> 30 \<and> list_all (\<lambda>m. fits (last (the_metric v m))) metrics
            \<longrightarrow> row_layout (table_row (name, v))"
    using row_layout_table_row by blast
  show ?thesis using p f r by (intro conjI)
qed


text \<open>The literal data: the Reporter completes, no name is longer than 30, and the seven
  rows have the fixed layout.\<close>

theorem table_layout_witness:
  "fst (report (initial\<lparr>st_data := data\<rparr>)) = None
   \<and> printed (initial\<lparr>st_data := data\<rparr>) (snd (report (initial\<lparr>st_data := data\<rparr>))) =
       unlines ([[], ''Final Metrics (at Epoch 30):'', replicate 80 CHR ''-'',
                 ''Model                                Loss       PESQ       STOI'',
                 replicate 80 CHR ''-'']
                @ expected_rows @ [replicate 80 CHR ''-''])
   \<and> map table_row (series_of data) = expected_rows
   \<and> list_all (\<lambda>(name, v). length name \<le> 30) (series_of data)
   \<and> list_all row_layout expected_rows"
proof -
  have h: "fst (report (initial\<lparr>st_data := data\<rparr>)) = None"
    by (simp add: report_data)
  have rows: "map table_row (series_of data) = expected_rows"
    using rows_formula by (simp add: table_row_def)
  have names: "list_all (\<lambda>(name, v). length name \<le> 30) (series_of data)"
    by (simp add: series_of_def data_def)
  have p: "printed (initial\<lparr>st_data := data\<rparr>) (snd (report (initial\<lparr>st_data := data\<rparr>))) =
       unlines ([[], ''Final Metrics (at Epoch 30):'', replicate 80 CHR ''-'',
                 ''Model                                Loss       PESQ       STOI'',
                 replicate 80 CHR ''-'']
                @ expected_rows @ [replicate 80 CHR ''-''])"
    using table_layout[OF h] by (simp add: rows)
  show ?thesis using h p rows names expected_rows_layout by (intro conjI)
qed

text \<open>
  C2, as stated, fails. The script has no check of the dataset and no exception of its own.
  Where \<^verbatim>\<open>loss\<close> is one element shorter than \<^verbatim>\<open>pesq\<close>, the Reporter raises nothing and
  prints the whole table, and what the Renderer raises is the \<^verbatim>\<open>ValueError\<close> of the call
  of \<^verbatim>\<open>plot\<close>. Where every sequence is empty, the Renderer completes and writes the image,
  and the Reporter raises \<^verbatim>\<open>IndexError\<close> after it has printed the title, the header and
  the rules.
\<close>

theorem no_integrity_check:
  "length_mismatch short_loss
   \<and> fst (report (initial\<lparr>st_data := short_loss\<rparr>)) = None
   \<and> st_stdout (snd (report (initial\<lparr>st_data := short_loss\<rparr>))) =
       unlines [[], ''Final Metrics (at Epoch 30):'', rule_line, header_line, rule_line,
                ''A                                   0.500      1.100      0.600'', rule_line]
   \<and> fst (render (initial\<lparr>st_data := short_loss\<rparr>)) = Some ValueError
   \<and> empty_metric all_empty
   \<and> fst (render (initial\<lparr>st_data := all_empty\<rparr>)) = None
   \<and> map fst (st_files (snd (render (initial\<lparr>st_data := all_empty\<rparr>)))) =
       [''training_metrics_comparison.png'']
   \<and> fst (report (initial\<lparr>st_data := all_empty\<rparr>)) = Some IndexError
   \<and> st_stdout (snd (report (initial\<lparr>st_data := all_empty\<rparr>))) =
       unlines [[], ''Final Metrics (at Epoch 30):'', rule_line, header_line, rule_line]"
  by code_simp

text \<open>
  C2, amended. For every dataset in which some series has one of the sequences \<^verbatim>\<open>loss\<close>,
  \<^verbatim>\<open>pesq\<close>, \<^verbatim>\<open>stoi\<close> of a length other than that of the epoch sequence, the run of the
  script ends with an exception raised in the plot loop, no file is written and nothing
  is printed.
\<close>

theorem mismatch_aborts_before_output:
  "length_mismatch (st_data st) \<Longrightarrow>
     fst (script st) \<noteq> None
     \<and> st_files (snd (script st)) = st_files st
     \<and> st_stdout (snd (script st)) = st_stdout st"
proof -
  assume a: "length_mismatch (st_data st)"
  obtain e axs fs where r: "render st = (e, st\<lparr>st_suptitle := Some ''Training Metrics Comparison'',
      st_axes := axs, st_files := fs @ st_files st\<rparr>)" and fs: "e \<noteq> None \<longrightarrow> fs = []"
    using render_effect[of "st_data st"] by blast
  have "e \<noteq> None" using mismatch_render_fails[OF a] r by simp
  then obtain err where e: "e = Some err" by blast
  then show ?thesis using r fs by (simp add: script_def)
qed

text \<open>The dataset whose \<^verbatim>\<open>loss\<close> is one element short: the run ends with an exception,
  with no file and no output.\<close>

theorem mismatch_aborts_before_output_witness:
  "length_mismatch (st_data (initial\<lparr>st_data := short_loss\<rparr>))
   \<and> fst (script (initial\<lparr>st_data := short_loss\<rparr>)) \<noteq> None
   \<and> st_files (snd (script (initial\<lparr>st_data := short_loss\<rparr>))) = []
   \<and> st_stdout (snd (script (initial\<lparr>st_data := short_loss\<rparr>))) = []"
proof -
  have m: "length_mismatch (st_data (initial\<lparr>st_data := short_loss\<rparr>))"
    by code_simp
  show ?thesis
    using m mismatch_aborts_before_output[OF m] by (simp add: initial_def)
qed
end
